theory Spec2Isabelle
  imports Main "HOL-Library.Word"
begin

section \<open>JavaScript values\<close>

text \<open>
  A JavaScript string is a sequence of UTF-16 code units, so \<open>length\<close> counts what
  \<^verbatim>\<open>.length\<close> counts and the em-dash U+2014 or the no-break space U+00A0 is one element.
  \<open>str\<close> writes an ASCII literal.
\<close>

type_synonym js_string = "16 word list"

definition str :: "string \<Rightarrow> js_string" where
  "str s = map of_char s"

text \<open>
  The numbers computed by the code below are integers or NaN (the result of
  \<^verbatim>\<open>parseInt\<close>); \<^verbatim>\<open>undefined\<close> is \<open>None\<close> of an option type.
\<close>

datatype js_number = NaN | Num int

datatype js_error = TypeError

text \<open>
  Reading \<^verbatim>\<open>xs[i]\<close> outside the array gives \<^verbatim>\<open>undefined\<close>, also for \<open>i = -1\<close>;
  \<^verbatim>\<open>xs.indexOf(x)\<close> is the first position of \<open>x\<close> or \<open>-1\<close>.
\<close>

definition js_nth :: "'a list \<Rightarrow> int \<Rightarrow> 'a option" where
  "js_nth xs i = (if 0 \<le> i \<and> i < int (length xs) then Some (xs ! nat i) else None)"

fun indexOf :: "'a list \<Rightarrow> 'a \<Rightarrow> int" where
  "indexOf [] x = - 1"
| "indexOf (y # ys) x =
     (if y = x then 0 else (let r = indexOf ys x in if r < 0 then - 1 else r + 1))"

section \<open>The content model\<close>

text \<open>
  Blocks and block groups are JavaScript objects: they are compared by identity
  (\<^verbatim>\<open>blocks.indexOf(item)\<close>) and assigned to in place (\<^verbatim>\<open>item.levels = []\<close>) while
  the parent's \<^verbatim>\<open>blocks\<close> array and the insert point's path refer to the same object.
  The model is therefore a store from addresses to objects, and an array of blocks is
  a list of addresses. Every JavaScript reference refers to an object, so the store is
  total. Segments and list levels are values inside the object that owns them (section 3
  of the specification: a level is owned by exactly one list item).
\<close>

type_synonym addr = nat

text \<open>
  The code distinguishes the segment types 'SelectionMarker', 'Br' and 'Text';
  \<open>segmentText\<close> is the field \<^verbatim>\<open>text\<close> of a text segment.
\<close>

datatype segment_type = SelectionMarker | Br | Text | OtherSegment

record ContentModelSegment =
  segmentType :: segment_type
  segmentText :: js_string

datatype list_type = OL | UL

record ListLevelFormat =
  startNumberOverride :: "js_number option"
  listStyleType :: "js_string option"

record ContentModelListLevel =
  listType :: list_type
  format :: ListLevelFormat
  dataset :: "(js_string \<times> js_string) list option"

datatype block_group_type = Document | FormatContainer | ListItem | TableCell | General

text \<open>
  A block group has \<open>blockGroupType\<close> and \<open>blocks\<close>; \<open>levels\<close> is the field of a list
  item (no code below reads or writes it on a group of another type), and
  \<open>listItemFormat\<close> is the field \<^verbatim>\<open>format\<close> of a list item, of which
  \<^verbatim>\<open>format?.listStyleType\<close> is read.
\<close>

record ContentModelBlockGroup =
  blockGroupType :: block_group_type
  blocks :: "addr list"
  levels :: "ContentModelListLevel list"
  listItemFormat :: "ListLevelFormat option"

datatype ContentModelObject =
    Paragraph "ContentModelSegment list"
  | Group ContentModelBlockGroup
  | Table
  | Divider
  | Entity

type_synonym heap = "addr \<Rightarrow> ContentModelObject"

datatype block_type = ParagraphBlock | BlockGroupBlock | TableBlock | DividerBlock | EntityBlock

text \<open>
  \<^verbatim>\<open>blockType\<close> of an object: a format container, list item or general group is a
  block of type 'BlockGroup'; a document and a table cell are groups but not blocks.
\<close>

fun blockType :: "ContentModelObject \<Rightarrow> block_type option" where
  "blockType (Paragraph segs) = Some ParagraphBlock"
| "blockType (Group g) =
     (if blockGroupType g \<in> {FormatContainer, ListItem, General}
      then Some BlockGroupBlock else None)"
| "blockType Table = Some TableBlock"
| "blockType Divider = Some DividerBlock"
| "blockType Entity = Some EntityBlock"

fun groupOf :: "ContentModelObject \<Rightarrow> ContentModelBlockGroup option" where
  "groupOf (Group g) = Some g"
| "groupOf _ = None"

section \<open>setModelListStartNumber\<close>

text \<open>
  \<^verbatim>\<open>getFirstSelectedListItem\<close> belongs to roosterjs-content-model-dom and is a
  parameter: it returns a list item of the model or \<^verbatim>\<open>undefined\<close>. The function
  returns its boolean and the model after the call. On an object without \<^verbatim>\<open>levels\<close>
  (excluded by the parameter's type) \<^verbatim>\<open>listItem?.levels.length\<close> throws.
\<close>

definition setModelListStartNumber ::
  "(heap \<Rightarrow> addr option) \<Rightarrow> heap \<Rightarrow> js_number \<Rightarrow> (js_error + bool) \<times> heap" where
  "setModelListStartNumber getFirstSelectedListItem model val =
     (case getFirstSelectedListItem model of
        None \<Rightarrow> (Inr False, model)
      | Some listItem \<Rightarrow>
          (case model listItem of
             Group g \<Rightarrow>
               (if blockGroupType g \<noteq> ListItem then (Inl TypeError, model)
                else
                  (case js_nth (levels g) (int (length (levels g)) - 1) of
                     None \<Rightarrow> (Inr False, model)
                   | Some level \<Rightarrow>
                       (Inr True,
                        model(listItem := Group (g\<lparr>levels :=
                          (levels g)[length (levels g) - 1 :=
                             level\<lparr>format := (format level)\<lparr>startNumberOverride := Some val\<rparr>\<rparr>]\<rparr>)))))
           | _ \<Rightarrow> (Inl TypeError, model)))"

section \<open>deleteEmptyList\<close>

text \<open>
  \<^verbatim>\<open>Array.prototype.every\<close> stops at the first element whose test is false. The test
  may not return (\<open>None\<close>), and then \<open>every\<close> does not return either.
\<close>

fun every_opt :: "('a \<Rightarrow> bool option) \<Rightarrow> 'a list \<Rightarrow> bool option" where
  "every_opt f [] = Some True"
| "every_opt f (x # xs) =
     Option.bind (f x) (\<lambda>b. if b then every_opt f xs else Some False)"

lemma every_opt_mono [partial_function_mono]:
  assumes "\<And>x. mono_option (\<lambda>f. F f x)"
  shows "mono_option (\<lambda>f. every_opt (F f) xs)"
  by (induction xs) (auto intro!: partial_function_mono assms)

text \<open>
  \<open>isEmptyBlock\<close> recurses through the \<^verbatim>\<open>blocks\<close> of block groups. On a store with
  a cycle of block groups the recursion does not end: the result is \<open>None\<close>. The
  argument is a block or \<^verbatim>\<open>undefined\<close>.
\<close>

partial_function (option) isEmptyBlock :: "heap \<Rightarrow> addr option \<Rightarrow> bool option" where
  "isEmptyBlock h block =
     (case block of
        None \<Rightarrow> Some False
      | Some b \<Rightarrow>
          (case h b of
             Paragraph segments \<Rightarrow>
               Some (list_all (\<lambda>segment. segmentType segment \<noteq> SelectionMarker \<and>
                                         segmentType segment = Br) segments)
           | Group g \<Rightarrow>
               if blockType (Group g) = Some BlockGroupBlock
               then every_opt (\<lambda>c. isEmptyBlock h (Some c)) (blocks g)
               else Some True
           | Table \<Rightarrow> Some True
           | Divider \<Rightarrow> Some True
           | Entity \<Rightarrow> Some True))"

declare isEmptyBlock.simps [code]

datatype DeleteResult = notDeleted | singleChar | rangeDeleted | nothingToDelete

text \<open>
  Of the insert point the function reads the path only: the block groups from the one
  holding the cursor (index 0) out to the document.
\<close>

record InsertPoint =
  path :: "addr list"

record DeleteSelectionContext =
  insertPoint :: "InsertPoint option"
  deleteResult :: DeleteResult

text \<open>
  Modelled from the spec: \<^verbatim>\<open>getClosestAncestorBlockGroupIndex\<close> is imported from
  publicApi/model and is not among the sources. Section 4.3: it locates the nearest
  ancestor block group of one of the given types on the path; the caller tests the
  result with \<^verbatim>\<open>index >= 0\<close>, so no such group is \<open>-1\<close>.
\<close>

fun getClosestAncestorBlockGroupIndex :: "heap \<Rightarrow> addr list \<Rightarrow> block_group_type list \<Rightarrow> int" where
  "getClosestAncestorBlockGroupIndex h [] types = - 1"
| "getClosestAncestorBlockGroupIndex h (a # as) types =
     (if (case groupOf (h a) of None \<Rightarrow> False | Some g \<Rightarrow> blockGroupType g \<in> set types)
      then 0
      else (let r = getClosestAncestorBlockGroupIndex h as types
            in if r < 0 then - 1 else r + 1))"

text \<open>
  \<^verbatim>\<open>hasSelectionInBlockGroup\<close> and \<^verbatim>\<open>hasSelectionInBlock\<close> are imported from
  publicApi/selection and are parameters (predicates on the model and an object). The
  result is \<open>None\<close> when \<open>isEmptyBlock\<close> does not return; otherwise it is the error
  thrown, if any, and the model after the call. \<^verbatim>\<open>insertPoint.path[index + 1].blocks\<close>
  throws a TypeError when the list item is the last element of the path.
\<close>

definition deleteEmptyList ::
  "(heap \<Rightarrow> addr \<Rightarrow> bool) \<Rightarrow> (heap \<Rightarrow> addr \<Rightarrow> bool) \<Rightarrow>
   DeleteSelectionContext \<Rightarrow> heap \<Rightarrow> (js_error option \<times> heap) option" where
  "deleteEmptyList hasSelectionInBlockGroup hasSelectionInBlock context h =
     (case (if deleteResult context = rangeDeleted then insertPoint context else None) of
        None \<Rightarrow> Some (None, h)
      | Some ip \<Rightarrow>
          (let index = getClosestAncestorBlockGroupIndex h (path ip) [ListItem] in
           case Option.bind (js_nth (path ip) index) (\<lambda>item. map_option (Pair item) (groupOf (h item))) of
             None \<Rightarrow> Some (None, h)
           | Some (item, g) \<Rightarrow>
               if \<not> (index \<ge> 0 \<and> blockGroupType g = ListItem) then Some (None, h)
               else
                 (case Option.bind (js_nth (path ip) (index + 1)) (\<lambda>p. groupOf (h p)) of
                    None \<Rightarrow> Some (Some TypeError, h)
                  | Some parent \<Rightarrow>
                      (let listItemIndex = indexOf (blocks parent) item;
                           previousBlock =
                             (if listItemIndex > - 1
                              then js_nth (blocks parent) (listItemIndex - 1) else None);
                           nextBlock =
                             (if listItemIndex > - 1
                              then js_nth (blocks parent) (listItemIndex + 1) else None)
                       in
                       if hasSelectionInBlockGroup h item \<and>
                          (case previousBlock of
                             None \<Rightarrow> True
                           | Some previous \<Rightarrow> hasSelectionInBlock h previous) \<and>
                          nextBlock \<noteq> None
                       then Option.bind (isEmptyBlock h nextBlock)
                              (\<lambda>empty. if empty
                                 then Some (None, h(item := Group (g\<lparr>levels := []\<rparr>)))
                                 else Some (None, h))
                       else Some (None, h)))))"

text \<open>
  A model is a tree when the children of a block group lie below it: some rank
  decreases from every block group to each of its blocks.
\<close>

definition ranked :: "heap \<Rightarrow> (addr \<Rightarrow> nat) \<Rightarrow> bool" where
  "ranked h rank \<longleftrightarrow> (\<forall>a g. h a = Group g \<longrightarrow> (\<forall>c \<in> set (blocks g). rank c < rank a))"

section \<open>getListStyleType\<close>

text \<open>
  A property read from the object literal \<^verbatim>\<open>bulletListType\<close>: a number for one of its
  own keys, a member inherited from \<^verbatim>\<open>Object.prototype\<close> (a function or object, which
  is truthy) for one of that object's keys, or \<^verbatim>\<open>undefined\<close>.
\<close>

datatype property_value = Undefined | NumberValue nat | InheritedMember

fun truthy :: "property_value \<Rightarrow> bool" where
  "truthy Undefined = False"
| "truthy (NumberValue n) = (n \<noteq> 0)"
| "truthy InheritedMember = True"

text \<open>
  The members of the enumeration \<^verbatim>\<open>BulletListType\<close> that the table names. The
  enumeration is declared in roosterjs-content-model-core, outside the sources: the
  number of each member is a parameter (\<open>bulletCode\<close> below).
\<close>

datatype BulletListType =
  Disc | Dash | Square | LongArrow | DoubleLongArrow | UnfilledArrow | ShortArrow | Hyphen

definition bulletListType_entries :: "(js_string \<times> BulletListType) list" where
  "bulletListType_entries =
     [(str ''*'', Disc),
      (str ''-'', Dash),
      (str ''--'', Square),
      (str ''->'', LongArrow),
      (str ''-->'', DoubleLongArrow),
      (str ''=>'', UnfilledArrow),
      (str ''>'', ShortArrow),
      ([0x2014], Hyphen)]"

definition objectPrototypeKeys :: "js_string list" where
  "objectPrototypeKeys =
     map str [''constructor'', ''hasOwnProperty'', ''isPrototypeOf'', ''propertyIsEnumerable'',
       ''toLocaleString'', ''toString'', ''valueOf'', ''__proto__'', ''__defineGetter__'',
       ''__defineSetter__'', ''__lookupGetter__'', ''__lookupSetter__'']"

definition bulletListType :: "(BulletListType \<Rightarrow> nat) \<Rightarrow> js_string \<Rightarrow> property_value" where
  "bulletListType bulletCode key =
     (case map_of bulletListType_entries key of
        Some glyph \<Rightarrow> NumberValue (bulletCode glyph)
      | None \<Rightarrow> if key \<in> set objectPrototypeKeys then InheritedMember else Undefined)"

record ListStyleMetadata =
  orderedStyleType :: "nat option"
  unorderedStyleType :: "nat option"

text \<open>
  The functions that \<open>getListStyleType\<close> imports and that are not among the sources
  are parameters: \<^verbatim>\<open>getSelectedSegmentsAndParagraphs(model, true)\<close> (pairs of a segment
  and its paragraph or \<^verbatim>\<open>null\<close>), \<^verbatim>\<open>getOperationalBlocks(model, ['ListItem'], ['TableCell'])\<close>
  (pairs of a block and its parent), \<^verbatim>\<open>updateListMetadata\<close>, \<^verbatim>\<open>getNumberingListStyle\<close>,
  \<^verbatim>\<open>getIndex\<close> and the numbers of \<^verbatim>\<open>BulletListType\<close>. Of the editor the function uses
  \<^verbatim>\<open>createContentModel()\<close>.
\<close>

record ListStyleImports =
  getSelectedSegmentsAndParagraphs :: "heap \<Rightarrow> (ContentModelSegment \<times> addr option) list"
  getOperationalBlocks :: "heap \<Rightarrow> (addr \<times> addr) list"
  updateListMetadata :: "ContentModelListLevel \<Rightarrow> ListStyleMetadata option"
  getNumberingListStyle :: "js_string \<Rightarrow> js_string option \<Rightarrow> nat option \<Rightarrow> nat option"
  getIndex :: "js_string \<Rightarrow> js_number"
  bulletCode :: "BulletListType \<Rightarrow> nat"

record IStandaloneEditor =
  createContentModel :: heap

record ListStyleResult =
  resultListType :: list_type
  styleType :: property_value
  index :: "js_number option"

text \<open>
  Modelled from the spec: \<^verbatim>\<open>isBlockGroupOfType\<close> is imported from
  roosterjs-content-model-core and is not among the sources; section 6 calls it a
  block-group-type narrowing predicate: the object is a block group of the given type.
\<close>

definition isBlockGroupOfType :: "ContentModelObject \<Rightarrow> block_group_type \<Rightarrow> bool" where
  "isBlockGroupOfType item t =
     (case groupOf item of None \<Rightarrow> False | Some g \<Rightarrow> blockGroupType g = t)"

text \<open>
  The loop of \<open>getPreviousListLevel\<close>, from the last block down to the first: the
  argument is the blocks still to visit, the loop visits the last of them first.
\<close>

fun lastListItem :: "heap \<Rightarrow> addr list \<Rightarrow> addr option" where
  "lastListItem h [] = None"
| "lastListItem h (b # bs) =
     (case lastListItem h bs of
        Some item \<Rightarrow> Some item
      | None \<Rightarrow> if isBlockGroupOfType (h b) ListItem then Some b else None)"

text \<open>
  \<^verbatim>\<open>parent.blocks.indexOf(paragraph)\<close> throws on a parent without \<^verbatim>\<open>blocks\<close> (which the
  type of the parent excludes); \<open>filter\<close> visits every entry before \<^verbatim>\<open>[0]\<close> is read.
\<close>

fun containing :: "heap \<Rightarrow> addr \<Rightarrow> (addr \<times> addr) list \<Rightarrow> js_error + (addr \<times> addr) list" where
  "containing h paragraph [] = Inr []"
| "containing h paragraph ((block, parent) # rest) =
     (case groupOf (h parent) of
        None \<Rightarrow> Inl TypeError
      | Some g \<Rightarrow>
          (case containing h paragraph rest of
             Inl e \<Rightarrow> Inl e
           | Inr found \<Rightarrow>
               Inr (if indexOf (blocks g) paragraph > - 1
                    then (block, parent) # found else found)))"

definition getPreviousListLevel ::
  "ListStyleImports \<Rightarrow> heap \<Rightarrow> addr \<Rightarrow> js_error + addr option" where
  "getPreviousListLevel imports model paragraph =
     (case containing model paragraph (getOperationalBlocks imports model) of
        Inl e \<Rightarrow> Inl e
      | Inr [] \<Rightarrow> Inr None
      | Inr ((block, parent) # _) \<Rightarrow>
          (case groupOf (model parent) of
             None \<Rightarrow> Inl TypeError
           | Some g \<Rightarrow> Inr (lastListItem model (blocks g))))"

text \<open>
  \<^verbatim>\<open>list?.levels[0].dataset\<close>: without a list the chain is \<^verbatim>\<open>undefined\<close>; with a list
  whose levels are empty, \<^verbatim>\<open>levels[0]\<close> is \<^verbatim>\<open>undefined\<close> and reading \<^verbatim>\<open>dataset\<close> of it
  throws.
\<close>

definition getPreviousListStyle ::
  "ListStyleImports \<Rightarrow> heap \<Rightarrow> addr option \<Rightarrow> js_error + nat option" where
  "getPreviousListStyle imports model list =
     (case list of
        None \<Rightarrow> Inr None
      | Some l \<Rightarrow>
          (case groupOf (model l) of
             None \<Rightarrow> Inl TypeError
           | Some g \<Rightarrow>
               (case js_nth (levels g) 0 of
                  None \<Rightarrow> Inl TypeError
                | Some level \<Rightarrow>
                    (case dataset level of
                       None \<Rightarrow> Inr None
                     | Some d \<Rightarrow> Inr (Option.bind (updateListMetadata imports level) orderedStyleType)))))"

text \<open>
  \<^verbatim>\<open>selectedSegmentsAndParagraphs[0][0]\<close> throws when the array is empty. The paragraph
  of the first entry is a paragraph or \<^verbatim>\<open>null\<close>; on another object
  \<^verbatim>\<open>paragraph?.segments[0]\<close> would throw. \<^verbatim>\<open>getPreviousListLevel\<close> is reached with a
  paragraph only, since a list marker segment was read from it.
\<close>

definition getListStyleType ::
  "ListStyleImports \<Rightarrow> IStandaloneEditor \<Rightarrow> js_error + ListStyleResult option" where
  "getListStyleType imports editor =
     (let model = createContentModel editor in
      case getSelectedSegmentsAndParagraphs imports model of
        [] \<Rightarrow> Inl TypeError
      | (marker, paragraph) # _ \<Rightarrow>
          (case paragraph of
             None \<Rightarrow> Inr None
           | Some p \<Rightarrow>
               (case model p of
                  Paragraph segments \<Rightarrow>
                    (case js_nth segments 0 of
                       None \<Rightarrow> Inr None
                     | Some listMarkerSegment \<Rightarrow>
                         if segmentType marker = SelectionMarker \<and>
                            segmentType listMarkerSegment = Text
                         then
                           (let listMarker = segmentText listMarkerSegment;
                                bulletType = bulletListType (bulletCode imports) listMarker
                            in
                            if truthy bulletType
                            then Inr (Some \<lparr>resultListType = UL, styleType = bulletType,
                                             index = None\<rparr>)
                            else
                              (case getPreviousListLevel imports model p of
                                 Inl e \<Rightarrow> Inl e
                               | Inr previousList \<Rightarrow>
                                   (case getPreviousListStyle imports model previousList of
                                      Inl e \<Rightarrow> Inl e
                                    | Inr previousListStyle \<Rightarrow>
                                        (case getNumberingListStyle imports listMarker
                                                (Option.bind
                                                   (Option.bind
                                                      (Option.bind previousList (\<lambda>l. groupOf (model l)))
                                                      listItemFormat)
                                                   listStyleType)
                                                previousListStyle of
                                           None \<Rightarrow> Inr None
                                         | Some numberingType \<Rightarrow>
                                             if numberingType \<noteq> 0
                                             then Inr (Some
                                               \<lparr>resultListType = OL,
                                                styleType = NumberValue numberingType,
                                                index = (case previousList of
                                                           None \<Rightarrow> None
                                                         | Some l \<Rightarrow> Some (getIndex imports listMarker))\<rparr>)
                                             else Inr None))))
                         else Inr None)
                | _ \<Rightarrow> Inl TypeError)))"

text \<open>
  Recursively empty, in the words of section 4.3: a paragraph all of whose segments are
  selection markers or line breaks, or a block group all of whose blocks are
  recursively empty.
\<close>

inductive recursivelyEmpty :: "heap \<Rightarrow> addr \<Rightarrow> bool" for h :: heap where
  ofParagraph: "h b = Paragraph segments \<Longrightarrow>
     \<forall>s \<in> set segments. segmentType s = SelectionMarker \<or> segmentType s = Br \<Longrightarrow>
     recursivelyEmpty h b"
| ofGroup: "h b = Group g \<Longrightarrow> \<forall>c \<in> set (blocks g). recursivelyEmpty h c \<Longrightarrow>
     recursivelyEmpty h b"

text \<open>
  The blocks that count as empty for the function, in words: a paragraph all of whose
  segments are line breaks; a block of type 'BlockGroup' all of whose blocks count as
  empty; and every object that is neither a paragraph nor a block of type
  'BlockGroup': a table, a divider, an entity.
\<close>

inductive emptyBlock :: "heap \<Rightarrow> addr \<Rightarrow> bool" for h :: heap where
  lineBreaks: "h b = Paragraph segments \<Longrightarrow> \<forall>s \<in> set segments. segmentType s = Br \<Longrightarrow>
     emptyBlock h b"
| emptyGroup: "h b = Group g \<Longrightarrow> blockType (h b) = Some BlockGroupBlock \<Longrightarrow>
     \<forall>c \<in> set (blocks g). emptyBlock h c \<Longrightarrow> emptyBlock h b"
| otherBlock: "blockType (h b) \<noteq> Some ParagraphBlock \<Longrightarrow>
     blockType (h b) \<noteq> Some BlockGroupBlock \<Longrightarrow> emptyBlock h b"

text \<open>
  The condition of section 4.3 for the list item \<open>item\<close>, with \<open>isEmpty\<close> for the
  emptiness of the next sibling: the deletion kind is 'range'; \<open>item\<close> is the nearest
  list item on the insert point's path (no list item stands before it) and the path
  continues with its parent; in the parent's blocks, split at the first occurrence of
  \<open>item\<close>, a next sibling exists and is empty, and there is no previous sibling or the
  previous sibling has selection; \<open>item\<close> has selection.
\<close>

definition isListItem :: "heap \<Rightarrow> addr \<Rightarrow> bool" where
  "isListItem h a =
     (case groupOf (h a) of None \<Rightarrow> False | Some g \<Rightarrow> blockGroupType g = ListItem)"

definition collapses ::
  "(heap \<Rightarrow> addr \<Rightarrow> bool) \<Rightarrow> (heap \<Rightarrow> addr \<Rightarrow> bool) \<Rightarrow> (heap \<Rightarrow> addr \<Rightarrow> bool) \<Rightarrow>
   DeleteSelectionContext \<Rightarrow> heap \<Rightarrow> addr \<Rightarrow> bool" where
  "collapses isEmpty hasSelectionInBlockGroup hasSelectionInBlock context h item \<longleftrightarrow>
     deleteResult context = rangeDeleted \<and>
     (\<exists>ip inner parent rest pg before next after.
        insertPoint context = Some ip \<and>
        path ip = inner @ item # parent # rest \<and>
        (\<forall>a \<in> set inner. \<not> isListItem h a) \<and> isListItem h item \<and>
        h parent = Group pg \<and>
        blocks pg = before @ item # next # after \<and> item \<notin> set before \<and>
        hasSelectionInBlockGroup h item \<and>
        (before = [] \<or> hasSelectionInBlock h (last before)) \<and>
        isEmpty h next)"

section \<open>List chains\<close>

text \<open>
  Modelled from the spec: \<^verbatim>\<open>VListChain\<close>, \<^verbatim>\<open>createListChains\<close> and \<^verbatim>\<open>commitListChains\<close>
  belong to roosterjs-editor-dom and roosterjs-editor-api and are not among the
  sources, which only call them. Section 4.2: a chain records its member lists in
  document order; committing rewrites the start-number override of the second and
  later lists to 1 + the sum of the item counts of all earlier members, on the first
  level of the first item of the member; a chain with a single member is left as it
  is. A member list is the sequence of its items, an item the sequence of its levels.
\<close>

type_synonym chain_member = "ContentModelListLevel list list"

type_synonym VListChain = "chain_member list"

text \<open>
  Modelled from the spec: the start-number override goes to the first level of the
  first item of a member; a member without a first item, or whose first item has no
  level, has no place for it and is left as it is.
\<close>

definition setStart :: "nat \<Rightarrow> chain_member \<Rightarrow> chain_member" where
  "setStart n member =
     (case member of
        (level # ls) # items \<Rightarrow>
          (level\<lparr>format := (format level)\<lparr>startNumberOverride := Some (Num (int n))\<rparr>\<rparr> # ls) # items
      | _ \<Rightarrow> member)"

text \<open>
  Modelled from the spec: the second and later members, in document order; \<open>earlier\<close>
  is the sum of the item counts of all members before the first of them.
\<close>

fun commitFrom :: "nat \<Rightarrow> chain_member list \<Rightarrow> chain_member list" where
  "commitFrom earlier [] = []"
| "commitFrom earlier (member # members) =
     setStart (1 + earlier) member # commitFrom (earlier + length member) members"

text \<open>
  Modelled from the spec: the commit of one chain leaves the first member as it is, and
  \<^verbatim>\<open>commitChains\<close> commits every chain.
\<close>

definition commitChain :: "VListChain \<Rightarrow> VListChain" where
  "commitChain chain =
     (case chain of [] \<Rightarrow> [] | first # members \<Rightarrow> first # commitFrom (length first) members)"

definition commitChains :: "VListChain list \<Rightarrow> VListChain list" where
  "commitChains listChains = map commitChain listChains"

section \<open>List features of the legacy editor\<close>

subsection \<open>Strings and numbers\<close>

definition code_unit :: "char \<Rightarrow> 16 word" where
  "code_unit c = of_char c"

text \<open>
  The white space of \<^verbatim>\<open>\s\<close>, of \<^verbatim>\<open>trim\<close> and of \<^verbatim>\<open>parseInt\<close>: the white space and line
  terminator code points of ECMAScript.
\<close>

definition isWhiteSpace :: "16 word \<Rightarrow> bool" where
  "isWhiteSpace c \<longleftrightarrow>
     c \<in> {0x9, 0xA, 0xB, 0xC, 0xD, 0x20, 0xA0, 0x1680, 0x2028, 0x2029, 0x202F, 0x205F,
          0x3000, 0xFEFF} \<or> (0x2000 \<le> c \<and> c \<le> 0x200A)"

definition trim :: "js_string \<Rightarrow> js_string" where
  "trim s = rev (dropWhile isWhiteSpace (rev (dropWhile isWhiteSpace s)))"

definition isDigit :: "16 word \<Rightarrow> bool" where
  "isDigit c \<longleftrightarrow> 0x30 \<le> c \<and> c \<le> 0x39"

text \<open>The value of a digit or letter as a digit of \<^verbatim>\<open>parseInt\<close>; 36 for any other code unit.\<close>

definition digitValue :: "16 word \<Rightarrow> nat" where
  "digitValue c =
     (if 0x30 \<le> c \<and> c \<le> 0x39 then unat c - 0x30
      else if 0x61 \<le> c \<and> c \<le> 0x7A then unat c - 0x61 + 10
      else if 0x41 \<le> c \<and> c \<le> 0x5A then unat c - 0x41 + 10
      else 36)"

text \<open>
  \<^verbatim>\<open>parseInt(string)\<close> without a radix: leading white space is skipped, a sign is read,
  a prefix 0x or 0X selects radix 16, and the longest prefix of digits of the radix is
  the number; without a digit the result is NaN. The result is the mathematical
  integer: JavaScript rounds it to a double, which is exact below \<open>2^53\<close>, and the
  callers pass at most five code units.
\<close>

definition parseInt :: "js_string \<Rightarrow> js_number" where
  "parseInt string =
     (let s = dropWhile isWhiteSpace string;
          negative = (take 1 s = [code_unit CHR ''-'']);
          s1 = (if negative \<or> take 1 s = [code_unit CHR ''+''] then drop 1 s else s);
          hex = (take 2 s1 = str ''0x'' \<or> take 2 s1 = str ''0X'');
          radix = (if hex then 16 else 10);
          z = takeWhile (\<lambda>c. digitValue c < radix) (if hex then drop 2 s1 else s1);
          mathInt = int (foldl (\<lambda>n c. n * radix + digitValue c) 0 z)
      in if z = [] then NaN else Num (if negative then - mathInt else mathInt))"

text \<open>
  The regular expression of \<open>isAListPattern\<close>, anchored at both ends: \<^verbatim>\<open>*\<close>, \<^verbatim>\<open>-\<close>, one or
  two digits followed by one of \<^verbatim>\<open>. > ) -\<close>, or one or two digits in parentheses.
\<close>

definition isListSeparator :: "16 word \<Rightarrow> bool" where
  "isListSeparator c \<longleftrightarrow>
     c \<in> {code_unit CHR ''.'', code_unit CHR ''>'', code_unit CHR '')'', code_unit CHR ''-''}"

fun isAListPattern :: "js_string \<Rightarrow> bool" where
  "isAListPattern [a] = (a = code_unit CHR ''*'' \<or> a = code_unit CHR ''-'')"
| "isAListPattern [a, b] = (isDigit a \<and> isListSeparator b)"
| "isAListPattern [a, b, c] =
     (isDigit a \<and> isDigit b \<and> isListSeparator c \<or>
      a = code_unit CHR ''('' \<and> isDigit b \<and> c = code_unit CHR '')'')"
| "isAListPattern [a, b, c, d] =
     (a = code_unit CHR ''('' \<and> isDigit b \<and> isDigit c \<and> d = code_unit CHR '')'')"
| "isAListPattern _ = False"

text \<open>
  \<open>isFirstItemOfAList\<close> returns 1 or \<^verbatim>\<open>undefined\<close>. \<^verbatim>\<open>number && number === 1\<close> holds for
  the number 1 only; \<^verbatim>\<open>replace(/\(|\)|\-|\./g, '')\<close> removes every parenthesis, hyphen
  and full stop.
\<close>

definition isFirstItemOfAList :: "js_string \<Rightarrow> nat option" where
  "isFirstItemOfAList item =
     (let number = parseInt item in
      if number = Num 1 then Some 1
      else
        (let letter = trim (filter (\<lambda>c. c \<notin> {code_unit CHR ''('', code_unit CHR '')'',
                                             code_unit CHR ''-'', code_unit CHR ''.''}) item)
         in if length letter = 1 \<and> indexOf (map str [''i'', ''a'', ''I'', ''A'']) letter > - 1
            then Some 1 else None))"

text \<open>The number that a sequence of decimal digits writes.\<close>

definition decimalValue :: "js_string \<Rightarrow> int" where
  "decimalValue digits = int (foldl (\<lambda>n d. n * 10 + (unat d - 48)) 0 digits)"

text \<open>
  What \<^verbatim>\<open>getSubStringBefore(n)\<close> returns when \<open>t\<close> is the text before the cursor: its
  last \<open>n\<close> code units, or all of it when it is shorter.
\<close>

definition lastUnits :: "nat \<Rightarrow> js_string \<Rightarrow> js_string" where
  "lastUnits n t = drop (length t - n) t"

subsection \<open>The editor\<close>

text \<open>
  The editor, its content searcher at the cursor and the DOM functions of
  roosterjs-editor-dom are outside the sources. A value of \<open>IEditor\<close> is what they
  answer in one state of the document: each field is the answer of the call named in
  its comment. A DOM node is known by its identity only.
\<close>

type_synonym node = nat

record dom_range =
  startContainer :: node

datatype ExperimentalFeatures = AutoFormatList | ReuseAllAncestorListElements

datatype ListType = Ordered | Unordered

datatype Keys = SPACE | TAB | ENTER | DELETE | BACKSPACE | RANGE

record IEditor =
  getElementAtCursor :: "js_string \<Rightarrow> node option \<Rightarrow> node option"
    \<comment> \<open>\<^verbatim>\<open>editor.getElementAtCursor(selector, startFrom, event)\<close>\<close>
  isFeatureEnabled :: "ExperimentalFeatures \<Rightarrow> bool"
    \<comment> \<open>\<^verbatim>\<open>editor.isFeatureEnabled(feature)\<close>\<close>
  getSubStringBefore :: "nat \<Rightarrow> js_string"
    \<comment> \<open>\<^verbatim>\<open>editor.getContentSearcherOfCursor(event).getSubStringBefore(n)\<close>\<close>
  getNearestNonTextInlineElement :: "node option"
    \<comment> \<open>\<^verbatim>\<open>searcher.getNearestNonTextInlineElement()\<close>\<close>
  getRangeFromText :: "js_string \<Rightarrow> dom_range option"
    \<comment> \<open>\<^verbatim>\<open>searcher.getRangeFromText(text, true)\<close>\<close>
  getPreviousBlockElementEndNode :: "node option \<Rightarrow> node option"
    \<comment> \<open>\<^verbatim>\<open>editor.getBodyTraverser(node).getPreviousBlockElement()?.getEndNode()\<close>\<close>
  getSelectedRegions :: nat
    \<comment> \<open>\<^verbatim>\<open>editor.getSelectedRegions().length\<close>\<close>
  getListChains :: "VListChain list"
    \<comment> \<open>\<^verbatim>\<open>VListChain.createListChains(editor.getSelectedRegions())\<close>\<close>
  getTagOfNode :: "node option \<Rightarrow> js_string"
    \<comment> \<open>\<^verbatim>\<open>getTagOfNode(node)\<close>\<close>
  findClosestElementAncestor :: "node \<Rightarrow> js_string \<Rightarrow> node option"
    \<comment> \<open>\<^verbatim>\<open>findClosestElementAncestor(node, undefined, selector)\<close>\<close>
  getMetadata :: "node \<Rightarrow> ListStyleMetadata option"
    \<comment> \<open>\<^verbatim>\<open>getMetadata(list, ListStyleDefinitionMetadata)\<close>\<close>

text \<open>
  \<^verbatim>\<open>getAutoBulletListStyle\<close> and \<^verbatim>\<open>getAutoNumberingListStyle\<close> (imported from ../utils,
  not among the sources) are the parameter \<open>getListStyle\<close>: the text, the list chains
  and the previous list style, each of the last two possibly \<^verbatim>\<open>undefined\<close>, give a style
  number or nothing.
\<close>

type_synonym list_style_function =
  "js_string \<Rightarrow> VListChain list option \<Rightarrow> nat option \<Rightarrow> nat option"

text \<open>A number or \<^verbatim>\<open>null\<close>/\<^verbatim>\<open>undefined\<close> as a condition: true for a number other than 0.\<close>

fun truthyNumber :: "nat option \<Rightarrow> bool" where
  "truthyNumber None = False"
| "truthyNumber (Some n) = (n \<noteq> 0)"

definition cacheGetListElement :: "IEditor \<Rightarrow> (node \<times> node) option" where
  "cacheGetListElement editor =
     (case getElementAtCursor editor (str ''LI,TABLE'') None of
        None \<Rightarrow> None
      | Some li \<Rightarrow>
          if getTagOfNode editor (Some li) = str ''LI''
          then (case getElementAtCursor editor (str ''UL,OL'') (Some li) of
                  None \<Rightarrow> None
                | Some listElement \<Rightarrow> Some (listElement, li))
          else None)"

text \<open>\<^verbatim>\<open>console.log(blockElement)\<close> in \<open>getPreviousListItem\<close> does not touch the editor.\<close>

definition getPreviousListItem :: "IEditor \<Rightarrow> dom_range option \<Rightarrow> node option" where
  "getPreviousListItem editor textRange =
     (let previousNode =
            getPreviousBlockElementEndNode editor (map_option startContainer textRange)
      in if getTagOfNode editor previousNode = str ''LI'' then previousNode else None)"

definition getPreviousListType :: "IEditor \<Rightarrow> dom_range option \<Rightarrow> ListType \<Rightarrow> nat option" where
  "getPreviousListType editor textRange listKind =
     (case getPreviousListItem editor textRange of
        None \<Rightarrow> None
      | Some listItem \<Rightarrow>
          (case findClosestElementAncestor editor listItem
                  (if listKind = Ordered then str ''ol'' else str ''ul'') of
             None \<Rightarrow> None
           | Some list \<Rightarrow>
               (case getMetadata editor list of
                  None \<Rightarrow> None
                | Some metadata \<Rightarrow>
                    if listKind = Ordered then orderedStyleType metadata
                    else unorderedStyleType metadata)))"

text \<open>
  The result of \<open>shouldTriggerList\<close> is used as a condition; the model gives its truth
  value. \<^verbatim>\<open>previousListType === listStyle\<close> is read only when \<open>previousListType\<close> is a
  number other than 0.
\<close>

definition shouldTriggerList :: "IEditor \<Rightarrow> list_style_function \<Rightarrow> ListType \<Rightarrow> bool" where
  "shouldTriggerList editor getListStyle listKind =
     (let textBeforeCursor = getSubStringBefore editor 4;
          itHasSpace = list_ex isWhiteSpace textBeforeCursor;
          listChains = getListChains editor;
          textRange = getRangeFromText editor textBeforeCursor;
          previousListType = getPreviousListType editor textRange listKind;
          isFirstItem = isFirstItemOfAList textBeforeCursor;
          listStyle = getListStyle textBeforeCursor (Some listChains) previousListType;
          shouldTriggerNewListStyle =
            (isFirstItem \<noteq> None \<or> \<not> truthyNumber previousListType \<or>
             previousListType = listStyle \<or> listKind = Unordered)
      in \<not> itHasSpace \<and> getNearestNonTextInlineElement editor = None \<and>
         truthyNumber listStyle \<and> shouldTriggerNewListStyle)"

subsection \<open>The features\<close>

definition AutoBullet_keys :: "Keys list" where
  "AutoBullet_keys = [SPACE]"

definition AutoBullet_shouldHandleEvent :: "IEditor \<Rightarrow> bool" where
  "AutoBullet_shouldHandleEvent editor =
     (if cacheGetListElement editor = None \<and> \<not> isFeatureEnabled editor AutoFormatList
      then (let textBeforeCursor = getSubStringBefore editor 4
            in isAListPattern textBeforeCursor \<and> getNearestNonTextInlineElement editor = None)
      else False)"

definition AutoBulletList_keys :: "Keys list" where
  "AutoBulletList_keys = [SPACE]"

definition AutoBulletList_shouldHandleEvent :: "list_style_function \<Rightarrow> IEditor \<Rightarrow> bool" where
  "AutoBulletList_shouldHandleEvent getAutoBulletListStyle editor =
     (if cacheGetListElement editor = None \<and> isFeatureEnabled editor AutoFormatList
      then shouldTriggerList editor getAutoBulletListStyle Unordered
      else False)"

definition AutoNumberingList_keys :: "Keys list" where
  "AutoNumberingList_keys = [SPACE]"

definition AutoNumberingList_shouldHandleEvent :: "list_style_function \<Rightarrow> IEditor \<Rightarrow> bool" where
  "AutoNumberingList_shouldHandleEvent getAutoNumberingListStyle editor =
     (if cacheGetListElement editor = None \<and> isFeatureEnabled editor AutoFormatList
      then shouldTriggerList editor getAutoNumberingListStyle Ordered
      else False)"

text \<open>
  An action is the sequence of its calls to the editor and to roosterjs-editor-api.
  \<open>prepareAutoBullet\<close> works on the DOM only and is one call here. The callback of
  \<^verbatim>\<open>addUndoSnapshot\<close> runs in the state \<open>editor\<close> that follows \<^verbatim>\<open>insertContent\<close>; its last
  statement asks for the range again, in the state \<open>editorAfter\<close> that follows the
  toggle.
\<close>

datatype editor_call =
    InsertContent js_string
  | PreventDefault
  | PrepareAutoBullet dom_range
  | ToggleBullet "nat option" "js_string option"
  | ToggleNumbering "js_number option" "nat option" "js_string option"
  | DeleteContents dom_range

definition deleteTypedText :: "IEditor \<Rightarrow> js_string \<Rightarrow> editor_call list" where
  "deleteTypedText editorAfter textBeforeCursor =
     (case getRangeFromText editorAfter textBeforeCursor of
        None \<Rightarrow> []
      | Some textRange \<Rightarrow> [DeleteContents textRange])"

definition AutoBullet_handleEvent :: "IEditor \<Rightarrow> IEditor \<Rightarrow> editor_call list" where
  "AutoBullet_handleEvent editor editorAfter =
     [InsertContent (str ''&nbsp;''), PreventDefault] @
     (let textBeforeCursor = getSubStringBefore editor 4 in
      (case getRangeFromText editor textBeforeCursor of
         None \<Rightarrow> []
       | Some textRange \<Rightarrow>
           if indexOf textBeforeCursor (code_unit CHR ''*'') = 0 \<or>
              indexOf textBeforeCursor (code_unit CHR ''-'') = 0
           then [PrepareAutoBullet textRange, ToggleBullet None None]
           else if isAListPattern textBeforeCursor
           then [PrepareAutoBullet textRange, ToggleNumbering None None None]
           else if getSelectedRegions editor = 1
           then [PrepareAutoBullet textRange,
                 ToggleNumbering (Some (parseInt textBeforeCursor)) None None]
           else []) @
      deleteTypedText editorAfter textBeforeCursor)"

definition AutoNumberingList_handleEvent ::
  "list_style_function \<Rightarrow> IEditor \<Rightarrow> IEditor \<Rightarrow> editor_call list" where
  "AutoNumberingList_handleEvent getAutoNumberingListStyle editor editorAfter =
     [InsertContent (str ''&nbsp;''), PreventDefault] @
     (let textBeforeCursor = getSubStringBefore editor 5 in
      (case getRangeFromText editor textBeforeCursor of
         None \<Rightarrow> []
       | Some textRange \<Rightarrow>
           (let number = (if isFirstItemOfAList textBeforeCursor \<noteq> None then Num 1
                          else parseInt textBeforeCursor);
                isLi = getPreviousListItem editor (Some textRange);
                listStyle = getAutoNumberingListStyle textBeforeCursor None None
            in [PrepareAutoBullet textRange,
                ToggleNumbering (if isLi \<noteq> None \<and> number \<noteq> Num 1 then None else Some number)
                  listStyle (Some (str ''autoToggleList''))])) @
      deleteTypedText editorAfter textBeforeCursor)"

section \<open>Examples\<close>

text \<open>
  A document (0) with the list items 1 and 2, a list item 6 without blocks and levels
  and a paragraph 3 with the text "2." and a selection marker. The first item holds the paragraph 4 with the selection marker
  and a text; the second holds the paragraph 5 with a line break only. The paragraph 7
  is a blank line with the cursor in it: a selection marker and a line break.
\<close>

definition exampleLevel :: ContentModelListLevel where
  "exampleLevel =
     \<lparr>listType = OL,
      format = \<lparr>startNumberOverride = None, listStyleType = None\<rparr>,
      dataset = None\<rparr>"

definition exampleModel :: heap where
  "exampleModel =
     (\<lambda>_. Divider)
       (0 := Group \<lparr>blockGroupType = Document, blocks = [1, 2, 6, 3], levels = [],
                    listItemFormat = None\<rparr>,
        1 := Group \<lparr>blockGroupType = ListItem, blocks = [4], levels = [exampleLevel],
                    listItemFormat = None\<rparr>,
        2 := Group \<lparr>blockGroupType = ListItem, blocks = [5], levels = [exampleLevel],
                    listItemFormat = None\<rparr>,
        3 := Paragraph [\<lparr>segmentType = Text, segmentText = str ''2.''\<rparr>,
                        \<lparr>segmentType = SelectionMarker, segmentText = []\<rparr>],
        4 := Paragraph [\<lparr>segmentType = SelectionMarker, segmentText = []\<rparr>,
                        \<lparr>segmentType = Text, segmentText = str ''y''\<rparr>],
        5 := Paragraph [\<lparr>segmentType = Br, segmentText = []\<rparr>],
        6 := Group \<lparr>blockGroupType = ListItem, blocks = [], levels = [],
                    listItemFormat = None\<rparr>,
        7 := Paragraph [\<lparr>segmentType = SelectionMarker, segmentText = []\<rparr>,
                        \<lparr>segmentType = Br, segmentText = []\<rparr>])"

definition exampleRank :: "addr \<Rightarrow> nat" where
  "exampleRank a = (if a = 0 then 2 else if a \<in> {1, 2, 6} then 1 else 0)"

text \<open>
  The example model with another next sibling of the first list item: a blank line
  with the cursor (a selection marker and a line break), and a table.
\<close>

definition markerSiblingModel :: heap where
  "markerSiblingModel =
     exampleModel
       (2 := Paragraph [\<lparr>segmentType = SelectionMarker, segmentText = []\<rparr>,
                        \<lparr>segmentType = Br, segmentText = []\<rparr>])"

definition tableSiblingModel :: heap where
  "tableSiblingModel = exampleModel(2 := Table)"

text \<open>A range deletion whose insert point lies in the list item \<open>item\<close> of the document.\<close>

definition exampleContext :: "addr \<Rightarrow> DeleteSelectionContext" where
  "exampleContext item = \<lparr>insertPoint = Some \<lparr>path = [item, 0]\<rparr>, deleteResult = rangeDeleted\<rparr>"

text \<open>
  Imports for the examples: the cursor is in paragraph 3 of the document, "2." is a
  decimal marker of style 1 and index 2, and the glyphs have the numbers 1 to 8.
\<close>

fun exampleBulletCode :: "BulletListType \<Rightarrow> nat" where
  "exampleBulletCode Disc = 1"
| "exampleBulletCode Dash = 2"
| "exampleBulletCode Square = 3"
| "exampleBulletCode ShortArrow = 4"
| "exampleBulletCode LongArrow = 5"
| "exampleBulletCode UnfilledArrow = 6"
| "exampleBulletCode Hyphen = 7"
| "exampleBulletCode DoubleLongArrow = 8"

definition exampleImports :: ListStyleImports where
  "exampleImports =
     \<lparr>getSelectedSegmentsAndParagraphs =
        (\<lambda>model. [(\<lparr>segmentType = SelectionMarker, segmentText = []\<rparr>, Some 3)]),
      getOperationalBlocks = (\<lambda>model. [(3, 0)]),
      updateListMetadata = (\<lambda>level. None),
      getNumberingListStyle = (\<lambda>marker previousIndex previousStyle.
        if marker = str ''2.'' then Some 1 else None),
      getIndex = (\<lambda>marker. Num 2),
      bulletCode = exampleBulletCode\<rparr>"

definition exampleChain :: VListChain where
  "exampleChain =
     [[[exampleLevel], [exampleLevel]],
      [[exampleLevel], [exampleLevel], [exampleLevel]],
      [[exampleLevel]]]"

text \<open>
  An editor with the experimental feature enabled and the cursor outside a list, after
  the text \<open>textBeforeCursor\<close> (shorter than every window asked for). The block before
  the cursor ends in the LI node 11 of the ordered list 12, whose metadata gives the
  numbering style 3.
\<close>

definition exampleEditor :: "js_string \<Rightarrow> IEditor" where
  "exampleEditor textBeforeCursor =
     \<lparr>getElementAtCursor = (\<lambda>selector startFrom. None),
      isFeatureEnabled = (\<lambda>feature. feature = AutoFormatList),
      getSubStringBefore = (\<lambda>n. textBeforeCursor),
      getNearestNonTextInlineElement = None,
      getRangeFromText = (\<lambda>t. Some \<lparr>startContainer = 10\<rparr>),
      getPreviousBlockElementEndNode = (\<lambda>n. Some 11),
      getSelectedRegions = 1,
      getListChains = [],
      getTagOfNode = (\<lambda>n. if n = Some 11 then str ''LI'' else str ''DIV''),
      findClosestElementAncestor = (\<lambda>n selector. if selector = str ''ol'' then Some 12 else None),
      getMetadata = (\<lambda>n. Some \<lparr>orderedStyleType = Some 3, unorderedStyleType = None\<rparr>)\<rparr>"

text \<open>The same editor with the experimental feature disabled.\<close>

definition legacyEditor :: "js_string \<Rightarrow> IEditor" where
  "legacyEditor textBeforeCursor =
     (exampleEditor textBeforeCursor)\<lparr>isFeatureEnabled := \<lambda>feature. False\<rparr>"

text \<open>An editor with the text "x (12)" before the cursor and no block before it.\<close>

definition windowEditor :: IEditor where
  "windowEditor =
     (exampleEditor [])
       \<lparr>getSubStringBefore := \<lambda>n. drop (6 - n) (str ''x (12)''),
        getPreviousBlockElementEndNode := \<lambda>n. None\<rparr>"

text \<open>A style inference for the examples: a text with a digit is a marker of style 1.\<close>

definition exampleNumberingStyle :: list_style_function where
  "exampleNumberingStyle t listChains previousListStyle =
     (if list_ex isDigit t then Some 1 else None)"

section \<open>Properties of setModelListStartNumber\<close>

lemma js_nth_last:
  "js_nth xs (int (length xs) - 1) = (if xs = [] then None else Some (last xs))"
  by (cases xs rule: rev_cases) (simp_all add: js_nth_def nth_append)

lemma js_nth_Nil: "js_nth [] i = None"
  by (simp add: js_nth_def)

lemma list_update_last:
  "xs \<noteq> [] \<Longrightarrow> xs[length xs - Suc 0 := y] = butlast xs @ [y]"
  by (cases xs rule: rev_cases) simp_all

text \<open>
  C10. For every model and value: when there is no selected list item, or the first
  selected list item has no levels, the function returns false and the model is
  unchanged; when the first selected list item has levels, it returns true and the
  model differs only at that list item, whose levels are the old ones with
  \<open>startNumberOverride\<close> of the last level set to the value: every other object,
  every other field of the item, every other level and every other field of the last
  level and of its format are the old ones.
\<close>

theorem setModelListStartNumber_spec:
  "(sel model = None \<longrightarrow> setModelListStartNumber sel model v = (Inr False, model)) \<and>
   (\<forall>a g. sel model = Some a \<and> model a = Group g \<and> blockGroupType g = ListItem \<longrightarrow>
      (levels g = [] \<longrightarrow> setModelListStartNumber sel model v = (Inr False, model)) \<and>
      (levels g \<noteq> [] \<longrightarrow>
         setModelListStartNumber sel model v =
           (Inr True,
            model(a := Group (g\<lparr>levels := butlast (levels g) @
              [(last (levels g))\<lparr>format :=
                 (format (last (levels g)))\<lparr>startNumberOverride := Some v\<rparr>\<rparr>]\<rparr>)))))"
  by (simp add: setModelListStartNumber_def js_nth_last js_nth_Nil list_update_last)

theorem setModelListStartNumber_spec_witness:
  "setModelListStartNumber (\<lambda>_. None) exampleModel (Num 3) = (Inr False, exampleModel) \<and>
   setModelListStartNumber (\<lambda>_. Some 6) exampleModel (Num 3) = (Inr False, exampleModel) \<and>
   setModelListStartNumber (\<lambda>_. Some 1) exampleModel (Num 3) =
     (Inr True,
      exampleModel(1 := Group \<lparr>blockGroupType = ListItem, blocks = [4],
        levels = [\<lparr>listType = OL,
                   format = \<lparr>startNumberOverride = Some (Num 3), listStyleType = None\<rparr>,
                   dataset = None\<rparr>],
        listItemFormat = None\<rparr>))"
  using setModelListStartNumber_spec [of "\<lambda>_. None" exampleModel "Num 3"]
    setModelListStartNumber_spec [of "\<lambda>_. Some 6" exampleModel "Num 3"]
    setModelListStartNumber_spec [of "\<lambda>_. Some 1" exampleModel "Num 3"]
  by (simp add: exampleModel_def exampleLevel_def)

section \<open>Properties of isEmptyBlock\<close>

lemma every_opt_Some_True:
  "every_opt f xs = Some True \<longleftrightarrow> (\<forall>x \<in> set xs. f x = Some True)"
  by (induction xs) (auto simp: Option.bind_eq_Some_conv split: if_splits)

lemma every_opt_total:
  "(\<forall>x \<in> set xs. f x \<noteq> None) \<Longrightarrow> every_opt f xs \<noteq> None"
  by (induction xs) auto

lemma isEmptyBlock_None: "isEmptyBlock h None = Some False"
  by (subst isEmptyBlock.simps) simp

lemma isEmptyBlock_Paragraph:
  "h b = Paragraph segs \<Longrightarrow>
   isEmptyBlock h (Some b) =
     Some (list_all (\<lambda>segment. segmentType segment \<noteq> SelectionMarker \<and>
                               segmentType segment = Br) segs)"
  by (subst isEmptyBlock.simps) simp

lemma isEmptyBlock_Group:
  "h b = Group g \<Longrightarrow>
   isEmptyBlock h (Some b) =
     (if blockType (Group g) = Some BlockGroupBlock
      then every_opt (\<lambda>c. isEmptyBlock h (Some c)) (blocks g) else Some True)"
  by (subst isEmptyBlock.simps) (simp del: blockType.simps)

lemma isEmptyBlock_other:
  "h b = Table \<or> h b = Divider \<or> h b = Entity \<Longrightarrow> isEmptyBlock h (Some b) = Some True"
  by (subst isEmptyBlock.simps) auto

lemma isEmptyBlock_total_aux:
  assumes "ranked h rank"
  shows "isEmptyBlock h (Some b) \<noteq> None"
proof (induction "rank b" arbitrary: b rule: less_induct)
  case less
  show ?case
  proof (cases "h b")
    case (Paragraph segs)
    then show ?thesis by (simp add: isEmptyBlock_Paragraph)
  next
    case (Group g)
    have "\<forall>c \<in> set (blocks g). isEmptyBlock h (Some c) \<noteq> None"
      using assms Group less by (auto simp: ranked_def)
    then have "every_opt (\<lambda>c. isEmptyBlock h (Some c)) (blocks g) \<noteq> None"
      by (rule every_opt_total)
    with Group show ?thesis
      by (auto simp add: isEmptyBlock_Group simp del: blockType.simps)
  qed (simp_all add: isEmptyBlock_other)
qed

lemma isEmptyBlock_total:
  "ranked h rank \<Longrightarrow> isEmptyBlock h block \<noteq> None"
  by (cases block) (auto simp add: isEmptyBlock_None isEmptyBlock_total_aux)

lemma list_all_Br:
  "list_all (\<lambda>segment. segmentType segment \<noteq> SelectionMarker \<and> segmentType segment = Br) segs
     \<longleftrightarrow> (\<forall>s \<in> set segs. segmentType s = Br)"
  by (auto simp: list_all_iff)

lemma exampleModel_ranked: "ranked exampleModel exampleRank"
  by (auto simp: ranked_def exampleModel_def exampleRank_def split: if_splits)

text \<open>
  C2 (amended). The check returns true for a paragraph exactly when every segment is a
  line break: the test \<^verbatim>\<open>segmentType !== 'SelectionMarker' && segmentType == 'Br'\<close>
  rejects a selection marker. For a block of type 'BlockGroup' it returns true exactly
  when it returns true for every block of the group. On a model that is a tree it
  returns.
\<close>

theorem isEmptyBlock_spec:
  "(\<forall>segs. h b = Paragraph segs \<longrightarrow>
      isEmptyBlock h (Some b) = Some (\<forall>s \<in> set segs. segmentType s = Br)) \<and>
   (\<forall>g. h b = Group g \<and> blockType (h b) = Some BlockGroupBlock \<longrightarrow>
      (isEmptyBlock h (Some b) = Some True \<longleftrightarrow>
         (\<forall>c \<in> set (blocks g). isEmptyBlock h (Some c) = Some True))) \<and>
   (ranked h rank \<longrightarrow> isEmptyBlock h (Some b) \<noteq> None)"
proof (intro conjI allI impI)
  fix segs assume "h b = Paragraph segs"
  then show "isEmptyBlock h (Some b) = Some (\<forall>s \<in> set segs. segmentType s = Br)"
    by (simp add: isEmptyBlock_Paragraph list_all_Br)
next
  fix g assume "h b = Group g \<and> blockType (h b) = Some BlockGroupBlock"
  then have "h b = Group g" and "blockType (Group g) = Some BlockGroupBlock"
    by (auto simp del: blockType.simps)
  then have "isEmptyBlock h (Some b) = every_opt (\<lambda>c. isEmptyBlock h (Some c)) (blocks g)"
    by (simp add: isEmptyBlock_Group del: blockType.simps)
  then show "isEmptyBlock h (Some b) = Some True \<longleftrightarrow>
         (\<forall>c \<in> set (blocks g). isEmptyBlock h (Some c) = Some True)"
    by (simp add: every_opt_Some_True)
next
  assume "ranked h rank"
  then show "isEmptyBlock h (Some b) \<noteq> None" by (rule isEmptyBlock_total)
qed

theorem isEmptyBlock_spec_witness:
  "isEmptyBlock exampleModel (Some 5) = Some True \<and>
   isEmptyBlock exampleModel (Some 7) = Some False \<and>
   (isEmptyBlock exampleModel (Some 2) = Some True) =
     (isEmptyBlock exampleModel (Some 5) = Some True) \<and>
   isEmptyBlock exampleModel (Some 0) \<noteq> None"
  using isEmptyBlock_spec [of exampleModel 5 exampleRank]
    isEmptyBlock_spec [of exampleModel 7 exampleRank]
    isEmptyBlock_spec [of exampleModel 2 exampleRank]
    isEmptyBlock_spec [of exampleModel 0 exampleRank] exampleModel_ranked
  by (simp add: exampleModel_def)

text \<open>
  C2 as stated fails: a paragraph holding a selection marker and a line break has only
  segments that are selection markers or line breaks, and the check returns false.
\<close>

theorem isEmptyBlock_selection_marker_counterexample:
  "exampleModel 7 = Paragraph [\<lparr>segmentType = SelectionMarker, segmentText = []\<rparr>,
                               \<lparr>segmentType = Br, segmentText = []\<rparr>] \<and>
   list_all (\<lambda>s. segmentType s = SelectionMarker \<or> segmentType s = Br)
     [\<lparr>segmentType = SelectionMarker, segmentText = []\<rparr>,
      \<lparr>segmentType = Br, segmentText = []\<rparr>] \<and>
   isEmptyBlock exampleModel (Some 7) = Some False"
  by (simp add: exampleModel_def isEmptyBlock.simps)

section \<open>Properties of deleteEmptyList\<close>

lemma getClosest_char:
  "getClosestAncestorBlockGroupIndex h p [ListItem] =
     (if \<forall>a \<in> set p. \<not> isListItem h a then - 1
      else int (length (takeWhile (\<lambda>a. \<not> isListItem h a) p)))"
  by (induction p) (auto simp: Let_def isListItem_def split: option.splits)

lemma indexOf_char:
  "indexOf xs x = (if x \<in> set xs then int (length (takeWhile (\<lambda>y. y \<noteq> x) xs)) else - 1)"
  by (induction xs) (auto simp: Let_def)

lemma js_nth_append_length: "js_nth (xs @ y # ys) (int (length xs)) = Some y"
  by (simp add: js_nth_def)

lemma js_nth_append_Suc:
  "js_nth (xs @ y # ys) (int (length xs) + 1) = (case ys of [] \<Rightarrow> None | z # _ \<Rightarrow> Some z)"
  by (cases ys) (simp_all add: js_nth_def nth_append nat_add_distrib)

lemma js_nth_append_pred:
  "js_nth (xs @ y # ys) (int (length xs) - 1) = (if xs = [] then None else Some (last xs))"
  by (cases xs rule: rev_cases) (simp_all add: js_nth_def nth_append)

lemma getClosest_decomp:
  assumes "\<forall>a \<in> set inner. \<not> isListItem h a" and "isListItem h item"
  shows "getClosestAncestorBlockGroupIndex h (inner @ item # rest) [ListItem] = int (length inner)"
proof -
  have "takeWhile (\<lambda>a. \<not> isListItem h a) (inner @ item # rest) = inner"
    using assms by simp
  with assms(2) show ?thesis by (auto simp: getClosest_char)
qed

lemma indexOf_decomp:
  assumes "x \<notin> set before"
  shows "indexOf (before @ x # after) x = int (length before)"
proof -
  have "takeWhile (\<lambda>y. y \<noteq> x) (before @ x # after) = before"
    using assms by (induction before) auto
  then show ?thesis by (simp add: indexOf_char)
qed

lemma isListItem_Group:
  "isListItem h a \<longleftrightarrow> (\<exists>g. h a = Group g \<and> blockGroupType g = ListItem)"
  by (cases "h a") (simp_all add: isListItem_def)

text \<open>The call at a list item found on the path, with its parent's blocks split at the item.\<close>

lemma deleteEmptyList_at_item:
  assumes ctx: "deleteResult ctx = rangeDeleted" "insertPoint ctx = Some ip"
    and p: "path ip = inner @ item # parent # rest"
    and inner: "\<forall>a \<in> set inner. \<not> isListItem h a"
    and item: "h item = Group g" "blockGroupType g = ListItem"
    and parent: "h parent = Group pg"
    and bs: "blocks pg = before @ item # after" "item \<notin> set before"
  shows "deleteEmptyList hsg hsb ctx h =
     (if hsg h item \<and> (before = [] \<or> hsb h (last before)) \<and> after \<noteq> []
      then Option.bind (isEmptyBlock h (Some (hd after)))
             (\<lambda>empty. if empty then Some (None, h(item := Group (g\<lparr>levels := []\<rparr>)))
                       else Some (None, h))
      else Some (None, h))"
proof -
  have li: "isListItem h item" using item by (simp add: isListItem_Group)
  have idx: "getClosestAncestorBlockGroupIndex h (path ip) [ListItem] = int (length inner)"
    unfolding p using inner li by (rule getClosest_decomp)
  have n0: "js_nth (path ip) (int (length inner)) = Some item"
    unfolding p by (rule js_nth_append_length)
  have n1: "js_nth (path ip) (int (length inner) + 1) = Some parent"
    unfolding p by (simp add: js_nth_append_Suc)
  have io: "indexOf (blocks pg) item = int (length before)"
    unfolding bs(1) using bs(2) by (rule indexOf_decomp)
  have prev: "js_nth (blocks pg) (int (length before) - 1) =
              (if before = [] then None else Some (last before))"
    unfolding bs(1) by (rule js_nth_append_pred)
  have nxt: "js_nth (blocks pg) (int (length before) + 1) =
              (case after of [] \<Rightarrow> None | z # _ \<Rightarrow> Some z)"
    unfolding bs(1) by (rule js_nth_append_Suc)
  show ?thesis
    by (cases after)
       (auto simp add: deleteEmptyList_def ctx idx n0 n1 item parent io prev nxt)
qed

lemma deleteEmptyList_cases:
  assumes r: "ranked h rank"
  shows "(\<exists>e. deleteEmptyList hsg hsb ctx h = Some (e, h)) \<or>
         (\<exists>item g. collapses (\<lambda>h b. isEmptyBlock h (Some b) = Some True) hsg hsb ctx h item \<and> h item = Group g \<and>
            deleteEmptyList hsg hsb ctx h = Some (None, h(item := Group (g\<lparr>levels := []\<rparr>))))"
proof (cases "deleteResult ctx = rangeDeleted \<and> insertPoint ctx \<noteq> None")
  case False
  then show ?thesis by (auto simp: deleteEmptyList_def)
next
  case True
  then obtain ip where ctx: "deleteResult ctx = rangeDeleted" "insertPoint ctx = Some ip"
    by auto
  show ?thesis
  proof (cases "\<forall>a \<in> set (path ip). \<not> isListItem h a")
    case True
    then have "getClosestAncestorBlockGroupIndex h (path ip) [ListItem] = - 1"
      by (simp add: getClosest_char)
    then show ?thesis by (simp add: deleteEmptyList_def ctx js_nth_def)
  next
    case False
    then have "\<exists>a \<in> set (path ip). isListItem h a" by simp
    then obtain inner item rest where p: "path ip = inner @ item # rest"
      and li: "isListItem h item" and inner: "\<forall>a \<in> set inner. \<not> isListItem h a"
      by (auto dest!: split_list_first_prop)
    from li obtain g where item: "h item = Group g" "blockGroupType g = ListItem"
      by (auto simp: isListItem_Group)
    have idx: "getClosestAncestorBlockGroupIndex h (path ip) [ListItem] = int (length inner)"
      unfolding p using inner li by (rule getClosest_decomp)
    have n0: "js_nth (path ip) (int (length inner)) = Some item"
      unfolding p by (rule js_nth_append_length)
    have n1: "js_nth (path ip) (int (length inner) + 1) =
                (case rest of [] \<Rightarrow> None | z # _ \<Rightarrow> Some z)"
      unfolding p by (rule js_nth_append_Suc)
    show ?thesis
    proof (cases rest)
      case Nil
      then show ?thesis by (simp add: deleteEmptyList_def ctx idx n0 n1 item)
    next
      case (Cons parent rest')
      show ?thesis
      proof (cases "groupOf (h parent)")
        case None
        with Cons show ?thesis by (simp add: deleteEmptyList_def ctx idx n0 n1 item)
      next
        case (Some pg)
        then have parent: "h parent = Group pg" by (cases "h parent") simp_all
        show ?thesis
        proof (cases "item \<in> set (blocks pg)")
          case False
          then have "indexOf (blocks pg) item = - 1" by (simp add: indexOf_char)
          with Cons parent show ?thesis
            by (simp add: deleteEmptyList_def ctx idx n0 n1 item)
        next
          case True
          then obtain before after where bs: "blocks pg = before @ item # after"
            "item \<notin> set before"
            by (auto dest!: split_list_first)
          note eq = deleteEmptyList_at_item [OF ctx p [unfolded Cons] inner item parent bs,
              of hsg hsb]
          show ?thesis
          proof (cases "hsg h item \<and> (before = [] \<or> hsb h (last before)) \<and> after \<noteq> []")
            case False
            with eq show ?thesis by auto
          next
            case cond: True
            then obtain nxt after' where after: "after = nxt # after'" by (cases after) auto
            from r have "isEmptyBlock h (Some nxt) \<noteq> None" by (rule isEmptyBlock_total)
            then obtain v where v: "isEmptyBlock h (Some nxt) = Some v" by auto
            show ?thesis
            proof (cases v)
              case False
              with eq cond after v show ?thesis by auto
            next
              case True
              have "collapses (\<lambda>h b. isEmptyBlock h (Some b) = Some True) hsg hsb ctx h item"
              proof -
                have "path ip = inner @ item # parent # rest'" using p Cons by simp
                moreover have "blocks pg = before @ item # nxt # after'"
                  using bs after by simp
                moreover have "isEmptyBlock h (Some nxt) = Some True"
                  using v True by simp
                ultimately show ?thesis
                  unfolding collapses_def using ctx inner li parent bs(2) cond by blast
              qed
              moreover have "deleteEmptyList hsg hsb ctx h =
                  Some (None, h(item := Group (g\<lparr>levels := []\<rparr>)))"
                using eq cond after v True by simp
              ultimately show ?thesis using item by blast
            qed
          qed
        qed
      qed
    qed
  qed
qed

text \<open>On a tree the function's check returns true exactly for the blocks that count as empty.\<close>

lemma emptyBlock_isEmptyBlock:
  "emptyBlock h b \<Longrightarrow> isEmptyBlock h (Some b) = Some True"
proof (induction rule: emptyBlock.induct)
  case (lineBreaks b segments)
  then show ?case by (simp add: isEmptyBlock_Paragraph list_all_Br)
next
  case (emptyGroup b g)
  then show ?case
    by (simp add: isEmptyBlock_Group every_opt_Some_True del: blockType.simps)
next
  case (otherBlock b)
  then show ?case
    by (cases "h b") (auto simp: isEmptyBlock_Group isEmptyBlock_other)
qed

lemma isEmptyBlock_emptyBlock:
  assumes "ranked h rank"
  shows "isEmptyBlock h (Some b) = Some True \<Longrightarrow> emptyBlock h b"
proof (induction "rank b" arbitrary: b rule: less_induct)
  case less
  show ?case
  proof (cases "h b")
    case (Paragraph segs)
    with less.prems have "\<forall>s \<in> set segs. segmentType s = Br"
      by (simp add: isEmptyBlock_Paragraph list_all_Br)
    with Paragraph show ?thesis by (rule emptyBlock.lineBreaks)
  next
    case (Group g)
    show ?thesis
    proof (cases "blockType (h b) = Some BlockGroupBlock")
      case True
      with Group less.prems have "\<forall>c \<in> set (blocks g). isEmptyBlock h (Some c) = Some True"
        by (simp add: isEmptyBlock_Group every_opt_Some_True del: blockType.simps)
      moreover have "\<forall>c \<in> set (blocks g). rank c < rank b"
        using assms Group by (auto simp: ranked_def)
      ultimately have "\<forall>c \<in> set (blocks g). emptyBlock h c"
        using less.hyps by blast
      with Group True show ?thesis by (rule emptyBlock.emptyGroup)
    next
      case False
      moreover from Group have "blockType (h b) \<noteq> Some ParagraphBlock" by simp
      ultimately show ?thesis by (rule emptyBlock.otherBlock [rotated])
    qed
  qed (auto intro: emptyBlock.otherBlock)
qed

lemma isEmptyBlock_iff_emptyBlock:
  "ranked h rank \<Longrightarrow> isEmptyBlock h (Some b) = Some True \<longleftrightarrow> emptyBlock h b"
  using emptyBlock_isEmptyBlock isEmptyBlock_emptyBlock by blast

lemma collapses_emptyBlock:
  "ranked h rank \<Longrightarrow>
   collapses (\<lambda>h b. isEmptyBlock h (Some b) = Some True) hsg hsb ctx h item =
   collapses emptyBlock hsg hsb ctx h item"
  by (simp add: collapses_def isEmptyBlock_iff_emptyBlock)

lemma deleteEmptyList_cases_emptyBlock:
  assumes "ranked h rank"
  shows "(\<exists>e. deleteEmptyList hsg hsb ctx h = Some (e, h)) \<or>
         (\<exists>item g. collapses emptyBlock hsg hsb ctx h item \<and> h item = Group g \<and>
            deleteEmptyList hsg hsb ctx h = Some (None, h(item := Group (g\<lparr>levels := []\<rparr>))))"
  using deleteEmptyList_cases [OF assms, of hsg hsb ctx]
  by (simp add: collapses_emptyBlock [OF assms])

text \<open>
  C1 (amended). On a model that is a tree: when the condition of section 4.3 holds for
  a list item, with a next sibling that counts as empty for the function (a paragraph
  of line breaks only, a block group of such blocks, or a table, divider or entity),
  the call returns without an error and the model afterwards is the old one with that
  item's levels set to the empty sequence; when it holds for no item, the model
  afterwards is the old one (whether the call returns or throws).
\<close>

theorem deleteEmptyList_clears_exactly_when:
  assumes "ranked h rank"
  shows "(\<forall>item g. collapses emptyBlock hsg hsb ctx h item \<and> h item = Group g \<longrightarrow>
            deleteEmptyList hsg hsb ctx h = Some (None, h(item := Group (g\<lparr>levels := []\<rparr>)))) \<and>
         ((\<forall>item. \<not> collapses emptyBlock hsg hsb ctx h item) \<longrightarrow>
            (\<exists>e. deleteEmptyList hsg hsb ctx h = Some (e, h)))"
proof (intro conjI allI impI)
  fix item g
  assume "collapses emptyBlock hsg hsb ctx h item \<and> h item = Group g"
  then have c: "collapses emptyBlock hsg hsb ctx h item" and g: "h item = Group g" by simp_all
  from c obtain ip inner parent rest pg before nxt after where
    ctx: "deleteResult ctx = rangeDeleted" "insertPoint ctx = Some ip"
    and p: "path ip = inner @ item # parent # rest"
    and inner: "\<forall>a \<in> set inner. \<not> isListItem h a" and li: "isListItem h item"
    and parent: "h parent = Group pg"
    and bs: "blocks pg = before @ item # nxt # after" "item \<notin> set before"
    and sel: "hsg h item" "before = [] \<or> hsb h (last before)"
    and empty: "emptyBlock h nxt"
    unfolding collapses_def by blast
  from empty have returns: "isEmptyBlock h (Some nxt) = Some True"
    by (rule emptyBlock_isEmptyBlock)
  from li g have t: "blockGroupType g = ListItem" by (simp add: isListItem_Group)
  show "deleteEmptyList hsg hsb ctx h = Some (None, h(item := Group (g\<lparr>levels := []\<rparr>)))"
    using deleteEmptyList_at_item [OF ctx p inner g t parent bs, of hsg hsb] sel returns
    by simp
next
  assume "\<forall>item. \<not> collapses emptyBlock hsg hsb ctx h item"
  with deleteEmptyList_cases_emptyBlock [OF assms, of hsg hsb ctx]
  show "\<exists>e. deleteEmptyList hsg hsb ctx h = Some (e, h)" by blast
qed

text \<open>
  C9. On a model that is a tree the call ends with a model that is the old one, or
  that differs from it at one object only: a list item for which the condition of
  section 4.3 holds (with a next sibling that counts as empty for the function), which
  keeps every field but \<open>levels\<close>. When the condition holds
  for no item the model is unchanged. The context is only read: the source assigns to
  no field of it.
\<close>

theorem deleteEmptyList_frame:
  assumes "ranked h rank"
  shows "\<exists>e h'. deleteEmptyList hsg hsb ctx h = Some (e, h') \<and>
           (h' = h \<or>
            (\<exists>item g. collapses emptyBlock hsg hsb ctx h item \<and> h item = Group g \<and>
               h' item = Group (g\<lparr>levels := []\<rparr>) \<and> (\<forall>a. a \<noteq> item \<longrightarrow> h' a = h a))) \<and>
           ((\<forall>item. \<not> collapses emptyBlock hsg hsb ctx h item) \<longrightarrow> h' = h)"
  using deleteEmptyList_cases_emptyBlock [OF assms, of hsg hsb ctx]
proof (elim disjE exE conjE)
  fix e assume "deleteEmptyList hsg hsb ctx h = Some (e, h)"
  then show ?thesis by simp
next
  fix item g
  assume c: "collapses emptyBlock hsg hsb ctx h item" and g: "h item = Group g"
    and d: "deleteEmptyList hsg hsb ctx h = Some (None, h(item := Group (g\<lparr>levels := []\<rparr>)))"
  have "(h(item := Group (g\<lparr>levels := []\<rparr>))) item = Group (g\<lparr>levels := []\<rparr>)" by simp
  moreover have "\<forall>a. a \<noteq> item \<longrightarrow> (h(item := Group (g\<lparr>levels := []\<rparr>))) a = h a" by simp
  ultimately show ?thesis using c g d by blast
qed

lemma example_empty_sibling: "emptyBlock exampleModel 2"
  using isEmptyBlock_emptyBlock [OF exampleModel_ranked, of 2]
  by (simp add: isEmptyBlock.simps exampleModel_def)

lemma example_collapses:
  "collapses emptyBlock (\<lambda>h a. a = 1) (\<lambda>h a. False) (exampleContext 1) exampleModel 1"
  using example_empty_sibling unfolding collapses_def
  apply (intro conjI)
   apply (simp add: exampleContext_def)
  apply (rule exI [of _ "\<lparr>path = [1, 0]\<rparr>"], rule exI [of _ "[]"], rule exI [of _ 0],
      rule exI [of _ "[]"])
  apply (rule exI [of _ "\<lparr>blockGroupType = Document, blocks = [1, 2, 6, 3], levels = [],
                    listItemFormat = None\<rparr>"])
  apply (rule exI [of _ "[]"], rule exI [of _ 2], rule exI [of _ "[6, 3]"])
  apply (simp add: exampleContext_def exampleModel_def isListItem_def)
  done

lemma example_not_collapses:
  "\<not> collapses emptyBlock (\<lambda>h a. a = 2) (\<lambda>h a. False) (exampleContext 2) exampleModel item"
  unfolding collapses_def
  by (auto simp: exampleContext_def exampleModel_def Cons_eq_append_conv append_eq_Cons_conv)

lemma example_collapses_only:
  "collapses emptyBlock (\<lambda>h a. a = 1) (\<lambda>h a. False) (exampleContext 1) exampleModel item \<Longrightarrow> item = 1"
  unfolding collapses_def
  by (auto simp: exampleContext_def Cons_eq_append_conv append_eq_Cons_conv)

theorem deleteEmptyList_clears_exactly_when_witness:
  "ranked exampleModel exampleRank \<and>
   collapses emptyBlock (\<lambda>h a. a = 1) (\<lambda>h a. False) (exampleContext 1) exampleModel 1 \<and>
   deleteEmptyList (\<lambda>h a. a = 1) (\<lambda>h a. False) (exampleContext 1) exampleModel =
     Some (None, exampleModel(1 := Group \<lparr>blockGroupType = ListItem, blocks = [4],
       levels = [], listItemFormat = None\<rparr>)) \<and>
   (\<exists>e. deleteEmptyList (\<lambda>h a. a = 2) (\<lambda>h a. False) (exampleContext 2) exampleModel =
      Some (e, exampleModel))"
proof -
  have g: "exampleModel 1 = Group \<lparr>blockGroupType = ListItem, blocks = [4],
       levels = [exampleLevel], listItemFormat = None\<rparr>"
    by (simp add: exampleModel_def)
  note t1 = deleteEmptyList_clears_exactly_when [OF exampleModel_ranked,
      of "\<lambda>h a. a = 1" "\<lambda>h a. False" "exampleContext 1"]
  note t2 = deleteEmptyList_clears_exactly_when [OF exampleModel_ranked,
      of "\<lambda>h a. a = 2" "\<lambda>h a. False" "exampleContext 2"]
  from t1 example_collapses g
  have "deleteEmptyList (\<lambda>h a. a = 1) (\<lambda>h a. False) (exampleContext 1) exampleModel =
     Some (None, exampleModel(1 := Group (\<lparr>blockGroupType = ListItem, blocks = [4],
       levels = [exampleLevel], listItemFormat = None\<rparr>\<lparr>levels := []\<rparr>)))"
    by blast
  moreover from t2 example_not_collapses
  have "\<exists>e. deleteEmptyList (\<lambda>h a. a = 2) (\<lambda>h a. False) (exampleContext 2) exampleModel =
      Some (e, exampleModel)"
    by blast
  ultimately show ?thesis using exampleModel_ranked example_collapses by simp
qed

theorem deleteEmptyList_frame_witness:
  "(\<exists>e h'. deleteEmptyList (\<lambda>h a. a = 1) (\<lambda>h a. False) (exampleContext 1) exampleModel =
       Some (e, h') \<and>
     h' 0 = exampleModel 0 \<and> h' 2 = exampleModel 2 \<and> h' 4 = exampleModel 4 \<and>
     (\<exists>g. h' 1 = Group g \<and> blockGroupType g = ListItem \<and> blocks g = [4])) \<and>
   (\<exists>e. deleteEmptyList (\<lambda>h a. a = 2) (\<lambda>h a. False) (exampleContext 2) exampleModel =
       Some (e, exampleModel))"
proof -
  have g: "exampleModel 1 = Group \<lparr>blockGroupType = ListItem, blocks = [4],
       levels = [exampleLevel], listItemFormat = None\<rparr>"
    by (simp add: exampleModel_def)
  from deleteEmptyList_frame [OF exampleModel_ranked,
      of "\<lambda>h a. a = 1" "\<lambda>h a. False" "exampleContext 1"]
  obtain e h' where d: "deleteEmptyList (\<lambda>h a. a = 1) (\<lambda>h a. False) (exampleContext 1)
        exampleModel = Some (e, h')"
    and f: "h' = exampleModel \<or>
      (\<exists>item g. collapses emptyBlock (\<lambda>h a. a = 1) (\<lambda>h a. False) (exampleContext 1) exampleModel item \<and>
         exampleModel item = Group g \<and> h' item = Group (g\<lparr>levels := []\<rparr>) \<and>
         (\<forall>a. a \<noteq> item \<longrightarrow> h' a = exampleModel a))"
    by blast
  from f have "h' 0 = exampleModel 0 \<and> h' 2 = exampleModel 2 \<and> h' 4 = exampleModel 4 \<and>
     (\<exists>g. h' 1 = Group g \<and> blockGroupType g = ListItem \<and> blocks g = [4])"
  proof
    assume "h' = exampleModel"
    with g show ?thesis by simp
  next
    assume "\<exists>item g. collapses emptyBlock (\<lambda>h a. a = 1) (\<lambda>h a. False) (exampleContext 1) exampleModel item \<and>
         exampleModel item = Group g \<and> h' item = Group (g\<lparr>levels := []\<rparr>) \<and>
         (\<forall>a. a \<noteq> item \<longrightarrow> h' a = exampleModel a)"
    then obtain item g' where c: "collapses emptyBlock (\<lambda>h a. a = 1) (\<lambda>h a. False) (exampleContext 1) exampleModel item"
      and i: "exampleModel item = Group g'" "h' item = Group (g'\<lparr>levels := []\<rparr>)"
      and o: "\<forall>a. a \<noteq> item \<longrightarrow> h' a = exampleModel a"
      by blast
    from c have "item = 1" by (rule example_collapses_only)
    with i o g show ?thesis by auto
  qed
  with d have first: "\<exists>e h'. deleteEmptyList (\<lambda>h a. a = 1) (\<lambda>h a. False) (exampleContext 1) exampleModel =
       Some (e, h') \<and>
     h' 0 = exampleModel 0 \<and> h' 2 = exampleModel 2 \<and> h' 4 = exampleModel 4 \<and>
     (\<exists>g. h' 1 = Group g \<and> blockGroupType g = ListItem \<and> blocks g = [4])"
    by blast
  from deleteEmptyList_frame [OF exampleModel_ranked,
      of "\<lambda>h a. a = 2" "\<lambda>h a. False" "exampleContext 2"] example_not_collapses
  have "\<exists>e. deleteEmptyList (\<lambda>h a. a = 2) (\<lambda>h a. False) (exampleContext 2) exampleModel =
       Some (e, exampleModel)"
    by blast
  with first show ?thesis by blast
qed

lemma marker_sibling_collapses:
  "collapses recursivelyEmpty (\<lambda>h a. a = 1) (\<lambda>h a. False) (exampleContext 1)
     markerSiblingModel 1"
proof -
  have "recursivelyEmpty markerSiblingModel 2"
    by (rule recursivelyEmpty.ofParagraph [of _ _ "[\<lparr>segmentType = SelectionMarker, segmentText = []\<rparr>,
        \<lparr>segmentType = Br, segmentText = []\<rparr>]"]) (simp_all add: markerSiblingModel_def)
  then show ?thesis
    unfolding collapses_def
    apply (intro conjI)
     apply (simp add: exampleContext_def)
    apply (rule exI [of _ "\<lparr>path = [1, 0]\<rparr>"], rule exI [of _ "[]"], rule exI [of _ 0],
        rule exI [of _ "[]"])
    apply (rule exI [of _ "\<lparr>blockGroupType = Document, blocks = [1, 2, 6, 3], levels = [],
                      listItemFormat = None\<rparr>"])
    apply (rule exI [of _ "[]"], rule exI [of _ 2], rule exI [of _ "[6, 3]"])
    apply (simp add: exampleContext_def markerSiblingModel_def exampleModel_def isListItem_def)
    done
qed

lemma table_not_recursivelyEmpty: "\<not> recursivelyEmpty tableSiblingModel 2"
  by (auto simp: tableSiblingModel_def elim: recursivelyEmpty.cases)

text \<open>
  C1 as stated fails in both directions. With a blank line holding the cursor as next
  sibling, the condition of the claim holds (the sibling is recursively empty) and the
  levels stay. With a table as next sibling, which is not recursively empty, the
  levels are cleared.
\<close>

theorem deleteEmptyList_next_sibling_counterexample:
  "collapses recursivelyEmpty (\<lambda>h a. a = 1) (\<lambda>h a. False) (exampleContext 1)
     markerSiblingModel 1 \<and>
   deleteEmptyList (\<lambda>h a. a = 1) (\<lambda>h a. False) (exampleContext 1) markerSiblingModel =
     Some (None, markerSiblingModel) \<and>
   markerSiblingModel 1 = Group \<lparr>blockGroupType = ListItem, blocks = [4],
     levels = [exampleLevel], listItemFormat = None\<rparr> \<and>
   tableSiblingModel 0 = Group \<lparr>blockGroupType = Document, blocks = [1, 2, 6, 3], levels = [],
     listItemFormat = None\<rparr> \<and>
   tableSiblingModel 2 = Table \<and>
   \<not> recursivelyEmpty tableSiblingModel 2 \<and>
   tableSiblingModel 1 = Group \<lparr>blockGroupType = ListItem, blocks = [4],
     levels = [exampleLevel], listItemFormat = None\<rparr> \<and>
   deleteEmptyList (\<lambda>h a. a = 1) (\<lambda>h a. False) (exampleContext 1) tableSiblingModel =
     Some (None, tableSiblingModel(1 := Group \<lparr>blockGroupType = ListItem, blocks = [4],
       levels = [], listItemFormat = None\<rparr>))"
proof -
  have "deleteEmptyList (\<lambda>h a. a = 1) (\<lambda>h a. False) (exampleContext 1) markerSiblingModel =
     Some (None, markerSiblingModel)"
    by (simp add: deleteEmptyList_def exampleContext_def markerSiblingModel_def exampleModel_def
        js_nth_def isEmptyBlock.simps)
  moreover
  have "deleteEmptyList (\<lambda>h a. a = 1) (\<lambda>h a. False) (exampleContext 1) tableSiblingModel =
     Some (None, tableSiblingModel(1 := Group \<lparr>blockGroupType = ListItem, blocks = [4],
       levels = [], listItemFormat = None\<rparr>))"
    by (simp add: deleteEmptyList_def exampleContext_def tableSiblingModel_def exampleModel_def
        js_nth_def isEmptyBlock.simps)
  ultimately show ?thesis
    using marker_sibling_collapses table_not_recursivelyEmpty
    by (simp add: markerSiblingModel_def tableSiblingModel_def exampleModel_def)
qed

section \<open>Properties of getListStyleType\<close>

lemma bullet_keys:
  "map fst bulletListType_entries =
     [str ''*'', str ''-'', str ''--'', str ''->'', str ''-->'', str ''=>'', str ''>'', [0x2014]]"
  by (simp add: bulletListType_entries_def)

lemma bullet_keys_distinct: "distinct (map fst bulletListType_entries)"
  by (simp add: bulletListType_entries_def str_def)

lemma bullet_glyphs_distinct: "distinct (map snd bulletListType_entries)"
  by (simp add: bulletListType_entries_def)

lemma bulletListType_entry:
  "(key, glyph) \<in> set bulletListType_entries \<Longrightarrow>
   bulletListType code key = NumberValue (code glyph)"
  using map_of_is_SomeI [OF bullet_keys_distinct] by (simp add: bulletListType_def)

text \<open>
  C4. When the first selected entry is a segment of a paragraph whose leading segment
  is a text equal to one of the markers of the table, and the number of the marker's
  glyph is not zero, \<open>getListStyleType\<close> returns list type 'UL' with that glyph's
  number and no index if the first selected segment is a selection marker, and
  \<^verbatim>\<open>undefined\<close> otherwise: never a numbering style. The markers of the table are the
  eight of the lexicon, and their glyphs are pairwise distinct.
\<close>

theorem getListStyleType_bullet:
  assumes "getSelectedSegmentsAndParagraphs imports (createContentModel editor) =
             (marker, Some p) # others"
    and "createContentModel editor p = Paragraph (seg # segs)"
    and "segmentType seg = Text"
    and "(segmentText seg, glyph) \<in> set bulletListType_entries"
    and "bulletCode imports glyph \<noteq> 0"
  shows "getListStyleType imports editor =
           (if segmentType marker = SelectionMarker
            then Inr (Some \<lparr>resultListType = UL,
                             styleType = NumberValue (bulletCode imports glyph),
                             index = None\<rparr>)
            else Inr None) \<and>
         map fst bulletListType_entries =
           [str ''*'', str ''-'', str ''--'', str ''->'', str ''-->'', str ''=>'', str ''>'',
            [0x2014]] \<and>
         distinct (map snd bulletListType_entries)"
proof -
  have "bulletListType (bulletCode imports) (segmentText seg) =
          NumberValue (bulletCode imports glyph)"
    using assms(4) by (rule bulletListType_entry)
  with assms(1-3,5) have "getListStyleType imports editor =
           (if segmentType marker = SelectionMarker
            then Inr (Some \<lparr>resultListType = UL,
                             styleType = NumberValue (bulletCode imports glyph),
                             index = None\<rparr>)
            else Inr None)"
    by (simp add: getListStyleType_def js_nth_def)
  then show ?thesis using bullet_keys bullet_glyphs_distinct by simp
qed

theorem getListStyleType_bullet_witness:
  "getListStyleType exampleImports
     \<lparr>createContentModel = exampleModel
        (3 := Paragraph [\<lparr>segmentType = Text, segmentText = [0x2014]\<rparr>,
                         \<lparr>segmentType = SelectionMarker, segmentText = []\<rparr>])\<rparr> =
   Inr (Some \<lparr>resultListType = UL, styleType = NumberValue 7, index = None\<rparr>)"
  using getListStyleType_bullet [of exampleImports
      "\<lparr>createContentModel = exampleModel
        (3 := Paragraph [\<lparr>segmentType = Text, segmentText = [0x2014]\<rparr>,
                         \<lparr>segmentType = SelectionMarker, segmentText = []\<rparr>])\<rparr>"
      "\<lparr>segmentType = SelectionMarker, segmentText = []\<rparr>" 3 "[]"
      "\<lparr>segmentType = Text, segmentText = [0x2014]\<rparr>"
      "[\<lparr>segmentType = SelectionMarker, segmentText = []\<rparr>]" Hyphen]
  by (simp add: exampleImports_def bulletListType_entries_def)

text \<open>
  C8 fails on the code: with an empty selection \<^verbatim>\<open>selectedSegmentsAndParagraphs[0][0]\<close>
  throws, and with a non-bullet marker after a list item whose levels are empty
  \<^verbatim>\<open>list?.levels[0].dataset\<close> throws. When that list item has a level the same call
  returns a numbering style.
\<close>

theorem getListStyleType_throws:
  "getListStyleType (exampleImports\<lparr>getSelectedSegmentsAndParagraphs := \<lambda>model. []\<rparr>)
     \<lparr>createContentModel = exampleModel\<rparr> = Inl TypeError \<and>
   getListStyleType exampleImports \<lparr>createContentModel = exampleModel\<rparr> = Inl TypeError"
  by (simp add: getListStyleType_def exampleImports_def exampleModel_def js_nth_def
      bulletListType_def bulletListType_entries_def objectPrototypeKeys_def str_def
      getPreviousListLevel_def getPreviousListStyle_def isBlockGroupOfType_def)

lemma getListStyleType_example_numbering:
  "getListStyleType exampleImports
     \<lparr>createContentModel = exampleModel
        (6 := Group \<lparr>blockGroupType = ListItem, blocks = [], levels = [exampleLevel],
                     listItemFormat = None\<rparr>)\<rparr> =
   Inr (Some \<lparr>resultListType = OL, styleType = NumberValue 1, index = Some (Num 2)\<rparr>)"
  by (simp add: getListStyleType_def exampleImports_def exampleModel_def js_nth_def
      bulletListType_def bulletListType_entries_def objectPrototypeKeys_def str_def
      getPreviousListLevel_def getPreviousListStyle_def isBlockGroupOfType_def
      exampleLevel_def)

section \<open>Properties of list chains\<close>

lemma length_setStart: "length (setStart n member) = length member"
  by (simp add: setStart_def split: list.splits)

lemma setStart_setStart: "setStart n (setStart n member) = setStart n member"
  by (simp add: setStart_def split: list.splits)

lemma length_commitFrom: "length (commitFrom earlier members) = length members"
  by (induction members arbitrary: earlier) simp_all

lemma commitFrom_nth:
  "k < length members \<Longrightarrow>
   commitFrom earlier members ! k =
     setStart (1 + earlier + sum_list (map length (take k members))) (members ! k)"
proof (induction members arbitrary: earlier k)
  case Nil
  then show ?case by simp
next
  case (Cons member members)
  show ?case
  proof (cases k)
    case 0
    then show ?thesis by simp
  next
    case (Suc j)
    with Cons.prems have "j < length members" by simp
    from Cons.IH [OF this, of "earlier + length member"] Suc show ?thesis
      by (simp add: add.assoc)
  qed
qed

lemma commitFrom_idem:
  "commitFrom earlier (commitFrom earlier members) = commitFrom earlier members"
  by (induction members arbitrary: earlier)
     (simp_all add: setStart_setStart length_setStart)

lemma commitChain_idem: "commitChain (commitChain chain) = commitChain chain"
  by (cases chain) (simp_all add: commitChain_def commitFrom_idem)

lemma commitChain_nth:
  assumes "0 < k" and "k < length chain"
  shows "commitChain chain ! k = setStart (1 + sum_list (map length (take k chain))) (chain ! k)"
proof (cases chain)
  case Nil
  with assms show ?thesis by simp
next
  case (Cons first members)
  from assms obtain j where k: "k = Suc j" by (cases k) auto
  with assms Cons have "j < length members" by simp
  from commitFrom_nth [OF this, of "length first"] Cons k show ?thesis
    by (simp add: commitChain_def)
qed

text \<open>
  C3. After the commit of a chain, a member other than the first that has a first item
  with a first level is the old member with the start-number override of that level
  set to 1 + the sum of the item counts of all earlier members, and nothing else
  changed; the number of members and every item count are the old ones; a second
  commit changes nothing; a chain with a single member is unchanged.
\<close>

theorem commitChains_spec:
  "(\<forall>k level ls items. 0 < k \<and> k < length chain \<and> chain ! k = (level # ls) # items \<longrightarrow>
      commitChain chain ! k =
        (level\<lparr>format := (format level)\<lparr>startNumberOverride :=
           Some (Num (1 + int (sum_list (map length (take k chain)))))\<rparr>\<rparr> # ls) # items) \<and>
   length (commitChain chain) = length chain \<and>
   (\<forall>k < length chain. length (commitChain chain ! k) = length (chain ! k)) \<and>
   commitChains (commitChains (chain # others)) = commitChains (chain # others) \<and>
   commitChain [member] = [member]"
proof (intro conjI allI impI)
  fix k level ls items
  assume a: "0 < k \<and> k < length chain \<and> chain ! k = (level # ls) # items"
  then have "commitChain chain ! k =
      setStart (1 + sum_list (map length (take k chain))) (chain ! k)"
    by (simp add: commitChain_nth)
  with a show "commitChain chain ! k =
        (level\<lparr>format := (format level)\<lparr>startNumberOverride :=
           Some (Num (1 + int (sum_list (map length (take k chain)))))\<rparr>\<rparr> # ls) # items"
    by (simp add: setStart_def)
next
  show len: "length (commitChain chain) = length chain"
    by (cases chain) (simp_all add: commitChain_def length_commitFrom)
next
  fix k assume k: "k < length chain"
  show "length (commitChain chain ! k) = length (chain ! k)"
  proof (cases "k = 0")
    case True
    with k show ?thesis by (cases chain) (simp_all add: commitChain_def)
  next
    case False
    with k show ?thesis by (simp add: commitChain_nth length_setStart)
  qed
next
  show "commitChains (commitChains (chain # others)) = commitChains (chain # others)"
    by (simp add: commitChains_def commitChain_idem)
next
  show "commitChain [member] = [member]" by (simp add: commitChain_def)
qed

theorem commitChains_spec_witness:
  "map length exampleChain = [2, 3, 1] \<and>
   commitChain exampleChain ! 1 =
     [[exampleLevel\<lparr>format := \<lparr>startNumberOverride = Some (Num 3), listStyleType = None\<rparr>\<rparr>],
      [exampleLevel], [exampleLevel]] \<and>
   commitChain exampleChain ! 2 =
     [[exampleLevel\<lparr>format := \<lparr>startNumberOverride = Some (Num 6), listStyleType = None\<rparr>\<rparr>]] \<and>
   commitChains (commitChains [exampleChain]) = commitChains [exampleChain]"
  using commitChains_spec [of exampleChain "[]"]
  by (simp add: exampleChain_def exampleLevel_def)

section \<open>Properties of the list features\<close>

lemmas string_eval = str_def code_unit_def isWhiteSpace_def digitValue_def parseInt_def trim_def
  isFirstItemOfAList_def isDigit_def isListSeparator_def

lemma isFirstItemOfAList_cases: "isFirstItemOfAList t = Some 1 \<or> isFirstItemOfAList t = None"
  by (simp add: isFirstItemOfAList_def Let_def)

lemma indexOf_member: "indexOf xs x > - 1 \<longleftrightarrow> x \<in> set xs"
  by (simp add: indexOf_char)

lemma letters_length:
  "letter \<in> set (map str [''i'', ''a'', ''I'', ''A'']) \<Longrightarrow> length letter = 1"
  by (auto simp: str_def)

lemma isFirstItemOfAList_iff:
  "isFirstItemOfAList t = Some 1 \<longleftrightarrow>
     parseInt t = Num 1 \<or>
     trim (filter (\<lambda>c. c \<notin> {code_unit CHR ''('', code_unit CHR '')'',
                             code_unit CHR ''-'', code_unit CHR ''.''}) t)
       \<in> set (map str [''i'', ''a'', ''I'', ''A''])"
proof -
  define letter where "letter = trim (filter (\<lambda>c. c \<notin> {code_unit CHR ''('',
    code_unit CHR '')'', code_unit CHR ''-'', code_unit CHR ''.''}) t)"
  have "isFirstItemOfAList t = Some 1 \<longleftrightarrow>
     parseInt t = Num 1 \<or>
     length letter = 1 \<and> letter \<in> set (map str [''i'', ''a'', ''I'', ''A''])"
    unfolding isFirstItemOfAList_def Let_def letter_def [symmetric] indexOf_member
    by simp
  also have "\<dots> \<longleftrightarrow> parseInt t = Num 1 \<or> letter \<in> set (map str [''i'', ''a'', ''I'', ''A''])"
    using letters_length [of letter] by blast
  finally show ?thesis unfolding letter_def .
qed

text \<open>
  C5 (amended). When the text before the cursor has a range: if \<^verbatim>\<open>parseInt\<close> of the text
  is 1, or the text without parentheses, hyphens and full stops, trimmed, is one of
  i, a, I, A, the first-item check returns 1 and the action passes the start number 1,
  whatever precedes; if the check returns \<^verbatim>\<open>undefined\<close> and the text starts with an
  integer \<open>n\<close>, the action passes \<open>n\<close> when no list item precedes the text and no start
  number when one does.
\<close>

theorem AutoNumberingList_startNumber:
  assumes "getRangeFromText editor (getSubStringBefore editor 5) = Some textRange"
  shows
    "(parseInt (getSubStringBefore editor 5) = Num 1 \<or>
      trim (filter (\<lambda>c. c \<notin> {code_unit CHR ''('', code_unit CHR '')'',
                              code_unit CHR ''-'', code_unit CHR ''.''})
              (getSubStringBefore editor 5))
        \<in> set (map str [''i'', ''a'', ''I'', ''A'']) \<longrightarrow>
        isFirstItemOfAList (getSubStringBefore editor 5) = Some 1 \<and>
        AutoNumberingList_handleEvent getStyle editor editorAfter =
          [InsertContent (str ''&nbsp;''), PreventDefault, PrepareAutoBullet textRange,
           ToggleNumbering (Some (Num 1)) (getStyle (getSubStringBefore editor 5) None None)
             (Some (str ''autoToggleList''))] @
          deleteTypedText editorAfter (getSubStringBefore editor 5)) \<and>
     (\<forall>n. isFirstItemOfAList (getSubStringBefore editor 5) = None \<and>
          parseInt (getSubStringBefore editor 5) = Num n \<longrightarrow>
        AutoNumberingList_handleEvent getStyle editor editorAfter =
          [InsertContent (str ''&nbsp;''), PreventDefault, PrepareAutoBullet textRange,
           ToggleNumbering
             (if getPreviousListItem editor (Some textRange) = None then Some (Num n) else None)
             (getStyle (getSubStringBefore editor 5) None None)
             (Some (str ''autoToggleList''))] @
          deleteTypedText editorAfter (getSubStringBefore editor 5))"
proof (intro conjI allI impI)
  assume "parseInt (getSubStringBefore editor 5) = Num 1 \<or>
      trim (filter (\<lambda>c. c \<notin> {code_unit CHR ''('', code_unit CHR '')'',
                              code_unit CHR ''-'', code_unit CHR ''.''})
              (getSubStringBefore editor 5))
        \<in> set (map str [''i'', ''a'', ''I'', ''A''])"
  then show first: "isFirstItemOfAList (getSubStringBefore editor 5) = Some 1"
    by (simp only: isFirstItemOfAList_iff)
  with assms show "AutoNumberingList_handleEvent getStyle editor editorAfter =
          [InsertContent (str ''&nbsp;''), PreventDefault, PrepareAutoBullet textRange,
           ToggleNumbering (Some (Num 1)) (getStyle (getSubStringBefore editor 5) None None)
             (Some (str ''autoToggleList''))] @
          deleteTypedText editorAfter (getSubStringBefore editor 5)"
    by (simp add: AutoNumberingList_handleEvent_def Let_def)
next
  fix n
  assume "isFirstItemOfAList (getSubStringBefore editor 5) = None \<and>
          parseInt (getSubStringBefore editor 5) = Num n"
  moreover from this have "n \<noteq> 1"
    by (auto simp: isFirstItemOfAList_def Let_def split: if_splits)
  ultimately show "AutoNumberingList_handleEvent getStyle editor editorAfter =
          [InsertContent (str ''&nbsp;''), PreventDefault, PrepareAutoBullet textRange,
           ToggleNumbering
             (if getPreviousListItem editor (Some textRange) = None then Some (Num n) else None)
             (getStyle (getSubStringBefore editor 5) None None)
             (Some (str ''autoToggleList''))] @
          deleteTypedText editorAfter (getSubStringBefore editor 5)"
    using assms by (simp add: AutoNumberingList_handleEvent_def Let_def)
qed

lemma parseInt_1: "parseInt (str ''1.'' @ [0xA0]) = Num 1"
  by (simp add: string_eval)
lemma parseInt_2: "parseInt (str ''2.'' @ [0xA0]) = Num 2"
  by (simp add: string_eval)
lemma first_2: "isFirstItemOfAList (str ''2.'' @ [0xA0]) = None"
  by (simp add: string_eval)

lemma style_1: "exampleNumberingStyle (str ''1.'' @ [0xA0]) c p = Some 1"
  by (simp add: exampleNumberingStyle_def str_def isDigit_def)

lemma style_2: "exampleNumberingStyle (str ''2.'' @ [0xA0]) c p = Some 1"
  by (simp add: exampleNumberingStyle_def str_def isDigit_def)

theorem AutoNumberingList_startNumber_witness:
  "AutoNumberingList_handleEvent exampleNumberingStyle (exampleEditor (str ''1.'' @ [0xA0]))
     (exampleEditor (str ''1.'' @ [0xA0])) =
     [InsertContent (str ''&nbsp;''), PreventDefault, PrepareAutoBullet \<lparr>startContainer = 10\<rparr>,
      ToggleNumbering (Some (Num 1)) (Some 1) (Some (str ''autoToggleList'')),
      DeleteContents \<lparr>startContainer = 10\<rparr>] \<and>
   AutoNumberingList_handleEvent exampleNumberingStyle
     ((exampleEditor (str ''2.'' @ [0xA0]))\<lparr>getPreviousBlockElementEndNode := \<lambda>n. None\<rparr>)
     (exampleEditor (str ''2.'' @ [0xA0])) =
     [InsertContent (str ''&nbsp;''), PreventDefault, PrepareAutoBullet \<lparr>startContainer = 10\<rparr>,
      ToggleNumbering (Some (Num 2)) (Some 1) (Some (str ''autoToggleList'')),
      DeleteContents \<lparr>startContainer = 10\<rparr>]"
  using AutoNumberingList_startNumber [of "exampleEditor (str ''1.'' @ [0xA0])"
      "\<lparr>startContainer = 10\<rparr>" exampleNumberingStyle "exampleEditor (str ''1.'' @ [0xA0])"]
    AutoNumberingList_startNumber [of
      "(exampleEditor (str ''2.'' @ [0xA0]))\<lparr>getPreviousBlockElementEndNode := \<lambda>n. None\<rparr>"
      "\<lparr>startContainer = 10\<rparr>" exampleNumberingStyle "exampleEditor (str ''2.'' @ [0xA0])"]
    parseInt_1 parseInt_2 first_2 style_1 style_2
  by (simp add: exampleEditor_def deleteTypedText_def getPreviousListItem_def)

text \<open>
  C5 as stated fails: after a list item the marker "2." gives no start number, not 2.
\<close>

theorem AutoNumberingList_continues_counterexample:
  "isFirstItemOfAList (str ''2.'' @ [0xA0]) = None \<and>
   parseInt (str ''2.'' @ [0xA0]) = Num 2 \<and>
   AutoNumberingList_handleEvent exampleNumberingStyle (exampleEditor (str ''2.'' @ [0xA0]))
     (exampleEditor (str ''2.'' @ [0xA0])) =
     [InsertContent (str ''&nbsp;''), PreventDefault, PrepareAutoBullet \<lparr>startContainer = 10\<rparr>,
      ToggleNumbering None (Some 1) (Some (str ''autoToggleList'')),
      DeleteContents \<lparr>startContainer = 10\<rparr>]"
  by (simp add: AutoNumberingList_handleEvent_def exampleEditor_def style_2
      deleteTypedText_def getPreviousListItem_def parseInt_2 first_2)

text \<open>
  The marker "(1)" is 1 after stripping the punctuation, but \<^verbatim>\<open>parseInt\<close> of it is NaN
  and the first-item check returns \<^verbatim>\<open>undefined\<close>.
\<close>

lemma isFirstItemOfAList_parenthesized_one:
  "filter (\<lambda>c. c \<notin> {code_unit CHR ''('', code_unit CHR '')'', code_unit CHR ''-'',
                      code_unit CHR ''.''}) (str ''(1)'') = str ''1'' \<and>
   parseInt (str ''(1)'') = NaN \<and> isFirstItemOfAList (str ''(1)'') = None"
  by (simp add: string_eval)

lemma length_one: "length ds = Suc 0 \<longleftrightarrow> (\<exists>a. ds = [a])"
  by (cases ds) auto

lemma length_two: "length ds = 2 \<longleftrightarrow> (\<exists>a b. ds = [a, b])"
  by (cases ds; cases "tl ds") auto

text \<open>
  The list pattern in words: \<^verbatim>\<open>*\<close>, \<^verbatim>\<open>-\<close>, one or two digits followed by a separator, or one
  or two digits in parentheses.
\<close>

lemma isAListPattern_iff:
  "isAListPattern t \<longleftrightarrow>
     t = str ''*'' \<or> t = str ''-'' \<or>
     (\<exists>ds sep. t = ds @ [sep] \<and> (length ds = 1 \<or> length ds = 2) \<and>
        list_all isDigit ds \<and> isListSeparator sep) \<or>
     (\<exists>ds. t = code_unit CHR ''('' # ds @ [code_unit CHR '')''] \<and>
        (length ds = 1 \<or> length ds = 2) \<and> list_all isDigit ds)"
  (is "?l \<longleftrightarrow> ?r")
proof
  assume ?l
  then show ?r
  proof (induction t rule: isAListPattern.induct)
    case (1 a)
    then show ?case by (auto simp: str_def code_unit_def)
  next
    case (2 a b)
    then have "[a, b] = [a] @ [b] \<and> (length [a] = 1 \<or> length [a] = 2) \<and>
        list_all isDigit [a] \<and> isListSeparator b" by simp
    then show ?case by blast
  next
    case (3 a b c)
    then consider "isDigit a \<and> isDigit b \<and> isListSeparator c"
      | "a = code_unit CHR ''('' \<and> isDigit b \<and> c = code_unit CHR '')''" by auto
    then show ?case
    proof cases
      case 1
      then have "[a, b, c] = [a, b] @ [c] \<and> (length [a, b] = 1 \<or> length [a, b] = 2) \<and>
        list_all isDigit [a, b] \<and> isListSeparator c" by simp
      then show ?thesis by blast
    next
      case 2
      then have "[a, b, c] = code_unit CHR ''('' # [b] @ [code_unit CHR '')''] \<and>
        (length [b] = 1 \<or> length [b] = 2) \<and> list_all isDigit [b]" by simp
      then show ?thesis by blast
    qed
  next
    case (4 a b c d)
    then have "[a, b, c, d] = code_unit CHR ''('' # [b, c] @ [code_unit CHR '')''] \<and>
        (length [b, c] = 1 \<or> length [b, c] = 2) \<and> list_all isDigit [b, c]" by simp
    then show ?case by blast
  qed simp_all
next
  assume ?r
  then show ?l
    by (auto simp: length_one length_two str_def code_unit_def)
qed

lemma indexOf_zero: "indexOf t c = 0 \<longleftrightarrow> take 1 t = [c]"
  by (cases t) (auto simp: Let_def)

lemma digit_not_space: "isDigit d \<Longrightarrow> \<not> isWhiteSpace d"
  by (auto simp: isDigit_def isWhiteSpace_def word_le_nat_alt)

lemma digit_not_sign:
  "isDigit d \<Longrightarrow> d \<noteq> code_unit CHR ''-'' \<and> d \<noteq> code_unit CHR ''+'' \<and>
     d \<noteq> code_unit CHR ''*''"
  by (auto simp: isDigit_def code_unit_def)

lemma digit_value: "isDigit d \<Longrightarrow> digitValue d = unat d - 48"
  by (auto simp: isDigit_def digitValue_def word_le_nat_alt)

lemma digit_less: "isDigit d \<Longrightarrow> digitValue d < 10"
  by (auto simp: isDigit_def digitValue_def word_le_nat_alt)

lemma separator_value: "isListSeparator c \<Longrightarrow> \<not> digitValue c < 10"
  by (auto simp: isListSeparator_def digitValue_def code_unit_def)

lemma not_hex_prefix:
  "isDigit d \<Longrightarrow> isDigit c \<or> isListSeparator c \<Longrightarrow>
   take 2 (d # c # rest) \<noteq> str ''0x'' \<and> take 2 (d # c # rest) \<noteq> str ''0X''"
  by (auto simp: isDigit_def isListSeparator_def str_def code_unit_def)

lemma takeWhile_digits:
  assumes "list_all isDigit ds" and "\<not> digitValue c < 10"
  shows "takeWhile (\<lambda>c. digitValue c < 10) (ds @ c # rest) = ds"
  using assms by (induction ds) (simp_all add: digit_less)

lemma foldl_digits:
  "list_all isDigit ds \<Longrightarrow>
   foldl (\<lambda>n c. n * 10 + digitValue c) k ds = foldl (\<lambda>n d. n * 10 + (unat d - 48)) k ds"
  by (induction ds arbitrary: k) (simp_all add: digit_value)

lemma parseInt_decimal:
  assumes "dropWhile isWhiteSpace t = t"
    and "take 1 t \<noteq> [code_unit CHR ''-'']" and "take 1 t \<noteq> [code_unit CHR ''+'']"
    and "take 2 t \<noteq> str ''0x''" and "take 2 t \<noteq> str ''0X''"
    and "takeWhile (\<lambda>c. digitValue c < 10) t = z" and "z \<noteq> []"
  shows "parseInt t = Num (int (foldl (\<lambda>n c. n * 10 + digitValue c) 0 z))"
  using assms by (simp add: parseInt_def Let_def)

text \<open>\<^verbatim>\<open>parseInt\<close> of digits followed by a list separator is the number the digits write.\<close>

lemma parseInt_digits:
  assumes "ds \<noteq> []" and "list_all isDigit ds" and "isListSeparator sep"
  shows "parseInt (ds @ sep # rest) = Num (decimalValue ds)"
proof -
  from assms(1) obtain d ds' where ds: "ds = d # ds'" by (cases ds) auto
  with assms(2) have d: "isDigit d" and ds': "list_all isDigit ds'" by simp_all
  have s: "dropWhile isWhiteSpace (ds @ sep # rest) = ds @ sep # rest"
    using d by (simp add: ds digit_not_space)
  have sign: "take 1 (ds @ sep # rest) \<noteq> [code_unit CHR ''-'']"
    "take 1 (ds @ sep # rest) \<noteq> [code_unit CHR ''+'']"
    using d by (simp_all add: ds digit_not_sign)
  have "take 2 (ds @ sep # rest) \<noteq> str ''0x'' \<and> take 2 (ds @ sep # rest) \<noteq> str ''0X''"
  proof (cases ds')
    case Nil
    with not_hex_prefix [OF d, of sep rest] assms(3) show ?thesis by (simp add: ds)
  next
    case (Cons c cs)
    with ds' have "isDigit c" by simp
    with not_hex_prefix [OF d, of c "cs @ sep # rest"] Cons show ?thesis by (simp add: ds)
  qed
  then have hex: "take 2 (ds @ sep # rest) \<noteq> str ''0x''" "take 2 (ds @ sep # rest) \<noteq> str ''0X''"
    by simp_all
  have z: "takeWhile (\<lambda>c. digitValue c < 10) (ds @ sep # rest) = ds"
    using assms(2) separator_value [OF assms(3)] by (rule takeWhile_digits)
  from parseInt_decimal [OF s sign hex z assms(1)] show ?thesis
    by (simp add: decimalValue_def foldl_digits [OF assms(2)])
qed

lemma pattern_last:
  "isAListPattern t \<Longrightarrow> t \<noteq> [] \<and> (last t = code_unit CHR ''*'' \<or> isListSeparator (last t))"
  by (induction t rule: isAListPattern.induct) (auto simp: isListSeparator_def)

lemma lastUnits_last:
  assumes "t \<noteq> []" and "0 < n"
  shows "lastUnits n t \<noteq> [] \<and> last (lastUnits n t) = last t"
proof -
  from assms have "length t - n < length t" by (cases t) auto
  then show ?thesis by (simp add: lastUnits_def last_drop)
qed

lemma not_pattern_window: "\<not> isAListPattern (lastUnits 4 (t @ [0xA0]))"
proof
  assume "isAListPattern (lastUnits 4 (t @ [0xA0]))"
  from pattern_last [OF this] lastUnits_last [of "t @ [0xA0]" 4] show False
    by (simp add: isListSeparator_def code_unit_def)
qed

lemma pattern_window_starts:
  "isAListPattern t \<Longrightarrow>
   (take 1 (lastUnits 4 (t @ [0xA0])) = str ''*'' \<longleftrightarrow> t = str ''*'') \<and>
   (take 1 (lastUnits 4 (t @ [0xA0])) = str ''-'' \<longleftrightarrow> t = str ''-'')"
  by (induction t rule: isAListPattern.induct)
     (auto simp: lastUnits_def str_def isDigit_def code_unit_def)

text \<open>
  The branches of the action on the text it reads. A text that ends with the inserted
  no-break space never matches the list pattern, so the second branch is not taken
  after the predicate.
\<close>

lemma AutoBullet_handleEvent_branches:
  assumes "getRangeFromText editor (getSubStringBefore editor 4) = Some textRange"
  shows
    "AutoBullet_handleEvent editor editorAfter =
       [InsertContent (str ''&nbsp;''), PreventDefault] @
       (if take 1 (getSubStringBefore editor 4) = str ''*'' \<or>
           take 1 (getSubStringBefore editor 4) = str ''-''
        then [PrepareAutoBullet textRange, ToggleBullet None None]
        else if isAListPattern (getSubStringBefore editor 4)
        then [PrepareAutoBullet textRange, ToggleNumbering None None None]
        else if getSelectedRegions editor = 1
        then [PrepareAutoBullet textRange,
              ToggleNumbering (Some (parseInt (getSubStringBefore editor 4))) None None]
        else []) @
       deleteTypedText editorAfter (getSubStringBefore editor 4)"
proof -
  have star: "str ''*'' = [code_unit CHR ''*'']" and dash: "str ''-'' = [code_unit CHR ''-'']"
    by (simp_all add: str_def code_unit_def)
  show ?thesis
    using assms
    by (simp add: AutoBullet_handleEvent_def Let_def indexOf_zero star dash)
qed

text \<open>
  C6. The predicate accepted the text before the cursor, and the action, which first
  inserts a no-break space, reads the last 4 code units of that text followed by the
  no-break space, finds their range and has one selected region. Then the accepted
  text matches the list pattern, and the action toggles a bullet list if the accepted
  text is \<^verbatim>\<open>*\<close> or \<^verbatim>\<open>-\<close> and toggles numbering otherwise, with \<^verbatim>\<open>parseInt\<close> of the text it
  read as start number: for one or two digits and a separator, the number the digits
  write.
\<close>

theorem AutoBullet_handleEvent_after_match:
  assumes "AutoBullet_shouldHandleEvent before"
    and "getSubStringBefore editor 4 = lastUnits 4 (getSubStringBefore before 4 @ [0xA0])"
    and "getRangeFromText editor (getSubStringBefore editor 4) = Some textRange"
    and "getSelectedRegions editor = 1"
  shows
    "isAListPattern (getSubStringBefore before 4) \<and>
     AutoBullet_handleEvent editor editorAfter =
       [InsertContent (str ''&nbsp;''), PreventDefault, PrepareAutoBullet textRange,
        if getSubStringBefore before 4 = str ''*'' \<or> getSubStringBefore before 4 = str ''-''
        then ToggleBullet None None
        else ToggleNumbering (Some (parseInt (getSubStringBefore editor 4))) None None] @
       deleteTypedText editorAfter (getSubStringBefore editor 4) \<and>
     (\<forall>ds sep. getSubStringBefore before 4 = ds @ [sep] \<and> ds \<noteq> [] \<and> length ds \<le> 2 \<and>
         list_all isDigit ds \<and> isListSeparator sep \<longrightarrow>
         parseInt (getSubStringBefore editor 4) = Num (decimalValue ds))"
proof (intro conjI allI impI)
  show pattern: "isAListPattern (getSubStringBefore before 4)"
    using assms(1) by (simp add: AutoBullet_shouldHandleEvent_def Let_def split: if_splits)
  have no: "\<not> isAListPattern (getSubStringBefore editor 4)"
    unfolding assms(2) by (rule not_pattern_window)
  note starts = pattern_window_starts [OF pattern, folded assms(2)]
  show "AutoBullet_handleEvent editor editorAfter =
       [InsertContent (str ''&nbsp;''), PreventDefault, PrepareAutoBullet textRange,
        if getSubStringBefore before 4 = str ''*'' \<or> getSubStringBefore before 4 = str ''-''
        then ToggleBullet None None
        else ToggleNumbering (Some (parseInt (getSubStringBefore editor 4))) None None] @
       deleteTypedText editorAfter (getSubStringBefore editor 4)"
    using AutoBullet_handleEvent_branches [OF assms(3), of editorAfter] no starts assms(4)
    by simp
next
  fix ds sep
  assume a: "getSubStringBefore before 4 = ds @ [sep] \<and> ds \<noteq> [] \<and> length ds \<le> 2 \<and>
         list_all isDigit ds \<and> isListSeparator sep"
  then have "getSubStringBefore editor 4 = ds @ sep # [0xA0]"
    by (simp add: assms(2) lastUnits_def)
  with a show "parseInt (getSubStringBefore editor 4) = Num (decimalValue ds)"
    by (simp add: parseInt_digits)
qed

lemma legacy_editor:
  "getSubStringBefore (legacyEditor t) n = t"
  "getRangeFromText (legacyEditor t) u = Some \<lparr>startContainer = 10\<rparr>"
  "getSelectedRegions (legacyEditor t) = 1"
  "cacheGetListElement (legacyEditor t) = None"
  "\<not> isFeatureEnabled (legacyEditor t) AutoFormatList"
  "getNearestNonTextInlineElement (legacyEditor t) = None"
  by (simp_all add: legacyEditor_def exampleEditor_def cacheGetListElement_def)

lemma legacy_three:
  "isAListPattern (str ''3.'') \<and> str ''3.'' \<noteq> str ''*'' \<and> str ''3.'' \<noteq> str ''-'' \<and>
   decimalValue (str ''3'') = 3 \<and>
   lastUnits 4 (str ''3.'' @ [0xA0]) = str ''3.'' @ [0xA0]"
  by (simp add: str_def isDigit_def isListSeparator_def code_unit_def decimalValue_def
      lastUnits_def)

lemma legacy_split:
  "str ''3.'' = str ''3'' @ [code_unit CHR ''.''] \<and> str ''3'' \<noteq> [] \<and>
   length (str ''3'') \<le> 2 \<and> list_all isDigit (str ''3'') \<and>
   isListSeparator (code_unit CHR ''.'')"
  by (simp add: str_def isDigit_def isListSeparator_def code_unit_def)

lemma legacy_star:
  "isAListPattern (str ''*'') \<and> lastUnits 4 (str ''*'' @ [0xA0]) = str ''*'' @ [0xA0]"
  by (simp add: str_def code_unit_def lastUnits_def)

theorem AutoBullet_handleEvent_after_match_witness:
  "AutoBullet_shouldHandleEvent (legacyEditor (str ''3.'')) \<and>
   AutoBullet_handleEvent (legacyEditor (str ''3.'' @ [0xA0])) (legacyEditor (str ''3.'' @ [0xA0])) =
     [InsertContent (str ''&nbsp;''), PreventDefault, PrepareAutoBullet \<lparr>startContainer = 10\<rparr>,
      ToggleNumbering (Some (Num 3)) None None, DeleteContents \<lparr>startContainer = 10\<rparr>] \<and>
   AutoBullet_shouldHandleEvent (legacyEditor (str ''*'')) \<and>
   AutoBullet_handleEvent (legacyEditor (str ''*'' @ [0xA0])) (legacyEditor (str ''*'' @ [0xA0])) =
     [InsertContent (str ''&nbsp;''), PreventDefault, PrepareAutoBullet \<lparr>startContainer = 10\<rparr>,
      ToggleBullet None None, DeleteContents \<lparr>startContainer = 10\<rparr>]"
proof -
  have fires: "AutoBullet_shouldHandleEvent (legacyEditor (str ''3.''))"
    "AutoBullet_shouldHandleEvent (legacyEditor (str ''*''))"
    using legacy_three legacy_star
    by (simp_all add: AutoBullet_shouldHandleEvent_def legacy_editor)
  have window: "getSubStringBefore (legacyEditor (str ''3.'' @ [0xA0])) 4 =
      lastUnits 4 (getSubStringBefore (legacyEditor (str ''3.'')) 4 @ [0xA0])"
    "getSubStringBefore (legacyEditor (str ''*'' @ [0xA0])) 4 =
      lastUnits 4 (getSubStringBefore (legacyEditor (str ''*'')) 4 @ [0xA0])"
    using legacy_three legacy_star by (simp_all add: legacy_editor)
  have range: "getRangeFromText (legacyEditor t) (getSubStringBefore (legacyEditor t) 4) =
      Some \<lparr>startContainer = 10\<rparr>" for t
    by (simp add: legacy_editor)
  note t3 = AutoBullet_handleEvent_after_match [OF fires(1) window(1) range legacy_editor(3),
      of "legacyEditor (str ''3.'' @ [0xA0])"]
  note ts = AutoBullet_handleEvent_after_match [OF fires(2) window(2) range legacy_editor(3),
      of "legacyEditor (str ''*'' @ [0xA0])"]
  have three: "getSubStringBefore (legacyEditor (str ''3.'')) 4 = str ''3'' @ [code_unit CHR ''.''] \<and>
      str ''3'' \<noteq> [] \<and> length (str ''3'') \<le> 2 \<and> list_all isDigit (str ''3'') \<and>
      isListSeparator (code_unit CHR ''.'')"
    using legacy_split by (simp add: legacy_editor)
  with t3 have "parseInt (getSubStringBefore (legacyEditor (str ''3.'' @ [0xA0])) 4) =
      Num (decimalValue (str ''3''))"
    by blast
  then have parsed: "parseInt (getSubStringBefore (legacyEditor (str ''3.'' @ [0xA0])) 4) = Num 3"
    using legacy_three by simp
  have "AutoBullet_handleEvent (legacyEditor (str ''3.'' @ [0xA0]))
      (legacyEditor (str ''3.'' @ [0xA0])) =
     [InsertContent (str ''&nbsp;''), PreventDefault, PrepareAutoBullet \<lparr>startContainer = 10\<rparr>,
      ToggleNumbering (Some (Num 3)) None None, DeleteContents \<lparr>startContainer = 10\<rparr>]"
    using t3 parsed legacy_three
    by (simp add: legacy_editor(1,2) deleteTypedText_def)
  moreover have "AutoBullet_handleEvent (legacyEditor (str ''*'' @ [0xA0]))
      (legacyEditor (str ''*'' @ [0xA0])) =
     [InsertContent (str ''&nbsp;''), PreventDefault, PrepareAutoBullet \<lparr>startContainer = 10\<rparr>,
      ToggleBullet None None, DeleteContents \<lparr>startContainer = 10\<rparr>]"
    using ts by (simp add: legacy_editor(1,2) deleteTypedText_def)
  ultimately show ?thesis using fires by simp
qed

text \<open>
  C7 (amended). Both predicates are registered for the space key. Each holds exactly
  when the cursor is not in a list, the feature AutoFormatList is enabled, the last up
  to 4 characters before the cursor contain no white space, no non-text inline element
  precedes the cursor and the style inference on that text gives a style; the
  numbering predicate requires in addition that the text is a first item, or that no
  style of a previous list is known, or that this style is the inferred one.
\<close>

theorem auto_list_predicates:
  "AutoBulletList_keys = [SPACE] \<and> AutoNumberingList_keys = [SPACE] \<and>
   (AutoBulletList_shouldHandleEvent getBulletStyle editor \<longleftrightarrow>
      cacheGetListElement editor = None \<and> isFeatureEnabled editor AutoFormatList \<and>
      \<not> list_ex isWhiteSpace (getSubStringBefore editor 4) \<and>
      getNearestNonTextInlineElement editor = None \<and>
      truthyNumber (getBulletStyle (getSubStringBefore editor 4) (Some (getListChains editor))
        (getPreviousListType editor
           (getRangeFromText editor (getSubStringBefore editor 4)) Unordered))) \<and>
   (AutoNumberingList_shouldHandleEvent getNumberingStyle editor \<longleftrightarrow>
      cacheGetListElement editor = None \<and> isFeatureEnabled editor AutoFormatList \<and>
      \<not> list_ex isWhiteSpace (getSubStringBefore editor 4) \<and>
      getNearestNonTextInlineElement editor = None \<and>
      truthyNumber (getNumberingStyle (getSubStringBefore editor 4) (Some (getListChains editor))
        (getPreviousListType editor
           (getRangeFromText editor (getSubStringBefore editor 4)) Ordered)) \<and>
      (isFirstItemOfAList (getSubStringBefore editor 4) = Some 1 \<or>
       \<not> truthyNumber (getPreviousListType editor
           (getRangeFromText editor (getSubStringBefore editor 4)) Ordered) \<or>
       getPreviousListType editor
           (getRangeFromText editor (getSubStringBefore editor 4)) Ordered =
       getNumberingStyle (getSubStringBefore editor 4) (Some (getListChains editor))
        (getPreviousListType editor
           (getRangeFromText editor (getSubStringBefore editor 4)) Ordered)))"
  using isFirstItemOfAList_cases [of "getSubStringBefore editor 4"]
  by (auto simp: AutoBulletList_keys_def AutoNumberingList_keys_def
      AutoBulletList_shouldHandleEvent_def AutoNumberingList_shouldHandleEvent_def
      shouldTriggerList_def Let_def)

lemma example_not_in_list: "cacheGetListElement (exampleEditor t) = None"
  by (simp add: cacheGetListElement_def exampleEditor_def)

lemma example_previous_type:
  "getPreviousListType (exampleEditor t) (Some \<lparr>startContainer = 10\<rparr>) Ordered = Some 3"
  by (simp add: getPreviousListType_def getPreviousListItem_def exampleEditor_def)

lemma no_space_2: "\<not> list_ex isWhiteSpace (str ''2.'')"
  by (simp add: str_def isWhiteSpace_def)

lemma style_2': "exampleNumberingStyle (str ''2.'') c p = Some 1"
  by (simp add: exampleNumberingStyle_def str_def isDigit_def)

lemma first_2': "isFirstItemOfAList (str ''2.'') = None"
  by (simp add: string_eval)

lemma previous_style_blocks:
  "cacheGetListElement (exampleEditor (str ''2.'')) = None \<and>
   isFeatureEnabled (exampleEditor (str ''2.'')) AutoFormatList \<and>
   getSubStringBefore (exampleEditor (str ''2.'')) 5 = str ''2.'' \<and>
   \<not> list_ex isWhiteSpace (getSubStringBefore (exampleEditor (str ''2.'')) 5) \<and>
   getNearestNonTextInlineElement (exampleEditor (str ''2.'')) = None \<and>
   exampleNumberingStyle (getSubStringBefore (exampleEditor (str ''2.'')) 5)
     (Some (getListChains (exampleEditor (str ''2.''))))
     (getPreviousListType (exampleEditor (str ''2.''))
        (getRangeFromText (exampleEditor (str ''2.'')) (str ''2.'')) Ordered) = Some 1 \<and>
   \<not> AutoNumberingList_shouldHandleEvent exampleNumberingStyle (exampleEditor (str ''2.''))"
proof -
  have e: "getSubStringBefore (exampleEditor (str ''2.'')) n = str ''2.''"
    "getRangeFromText (exampleEditor (str ''2.'')) t = Some \<lparr>startContainer = 10\<rparr>"
    "isFeatureEnabled (exampleEditor (str ''2.'')) AutoFormatList"
    "getNearestNonTextInlineElement (exampleEditor (str ''2.'')) = None" for n t
    by (simp_all add: exampleEditor_def)
  show ?thesis
    by (simp add: e example_not_in_list example_previous_type no_space_2 style_2' first_2'
        AutoNumberingList_shouldHandleEvent_def shouldTriggerList_def)
qed

theorem auto_list_predicates_witness:
  "AutoBulletList_shouldHandleEvent exampleNumberingStyle (exampleEditor (str ''2.'')) \<and>
   \<not> AutoNumberingList_shouldHandleEvent exampleNumberingStyle
       ((exampleEditor (str ''2.''))\<lparr>isFeatureEnabled := \<lambda>feature. False\<rparr>) \<and>
   AutoNumberingList_shouldHandleEvent exampleNumberingStyle
       ((exampleEditor (str ''2.''))\<lparr>getPreviousBlockElementEndNode := \<lambda>n. None\<rparr>)"
proof -
  have p: "getPreviousListType (exampleEditor (str ''2.'')) r Unordered = None"
    "getPreviousListType ((exampleEditor (str ''2.''))\<lparr>getPreviousBlockElementEndNode := \<lambda>n. None\<rparr>)
       r Ordered = None" for r
    by (simp_all add: getPreviousListType_def getPreviousListItem_def exampleEditor_def str_def)
  have c: "cacheGetListElement ((exampleEditor (str ''2.''))\<lparr>getPreviousBlockElementEndNode := \<lambda>n. None\<rparr>) = None"
    by (simp add: cacheGetListElement_def exampleEditor_def)
  show ?thesis
    using auto_list_predicates [of exampleNumberingStyle "exampleEditor (str ''2.'')"
        exampleNumberingStyle]
      auto_list_predicates [of exampleNumberingStyle
        "(exampleEditor (str ''2.''))\<lparr>isFeatureEnabled := \<lambda>feature. False\<rparr>" exampleNumberingStyle]
      auto_list_predicates [of exampleNumberingStyle
        "(exampleEditor (str ''2.''))\<lparr>getPreviousBlockElementEndNode := \<lambda>n. None\<rparr>"
        exampleNumberingStyle]
      p c example_not_in_list [of "str ''2.''"] no_space_2 style_2'
    by (simp add: exampleEditor_def)
qed

lemma window_4: "getSubStringBefore windowEditor 4 = str ''(12)''"
  by (simp add: windowEditor_def str_def)

lemma window_5: "getSubStringBefore windowEditor 5 = str '' (12)''"
  by (simp add: windowEditor_def str_def)

lemma window_space:
  "list_ex isWhiteSpace (str '' (12)'') \<and> \<not> list_ex isWhiteSpace (str ''(12)'')"
  by (simp add: str_def isWhiteSpace_def)

lemma window_style: "exampleNumberingStyle (str ''(12)'') c p = Some 1"
  by (simp add: exampleNumberingStyle_def str_def isDigit_def)

lemma window_style5: "exampleNumberingStyle (str '' (12)'') c p = Some 1"
  by (simp add: exampleNumberingStyle_def str_def isDigit_def)

lemma window_fires:
  "cacheGetListElement windowEditor = None \<and>
   getNearestNonTextInlineElement windowEditor = None \<and>
   exampleNumberingStyle (getSubStringBefore windowEditor 5) (Some (getListChains windowEditor))
     (getPreviousListType windowEditor
        (getRangeFromText windowEditor (getSubStringBefore windowEditor 5)) Ordered) = Some 1 \<and>
   list_ex isWhiteSpace (getSubStringBefore windowEditor 5) \<and>
   AutoNumberingList_shouldHandleEvent exampleNumberingStyle windowEditor"
proof -
  have p: "getPreviousListType windowEditor r Ordered = None" for r
    by (simp add: getPreviousListType_def getPreviousListItem_def windowEditor_def
        exampleEditor_def str_def)
  have c: "cacheGetListElement windowEditor = None"
    "getNearestNonTextInlineElement windowEditor = None"
    "isFeatureEnabled windowEditor AutoFormatList"
    by (simp_all add: cacheGetListElement_def windowEditor_def exampleEditor_def)
  show ?thesis
    by (simp add: c p window_4 window_5 window_space window_style window_style5
        AutoNumberingList_shouldHandleEvent_def shouldTriggerList_def)
qed

text \<open>
  C7 as stated fails in both directions. After a list of style 3 the marker "2." of
  style 1 meets every condition of the claim and the numbering predicate does not
  hold. After the text "x (12)" the last 5 characters contain a space, and the
  predicate holds: it looks at the last 4.
\<close>

theorem auto_list_predicates_counterexample:
  "(cacheGetListElement (exampleEditor (str ''2.'')) = None \<and>
   isFeatureEnabled (exampleEditor (str ''2.'')) AutoFormatList \<and>
   getSubStringBefore (exampleEditor (str ''2.'')) 5 = str ''2.'' \<and>
   \<not> list_ex isWhiteSpace (getSubStringBefore (exampleEditor (str ''2.'')) 5) \<and>
   getNearestNonTextInlineElement (exampleEditor (str ''2.'')) = None \<and>
   exampleNumberingStyle (getSubStringBefore (exampleEditor (str ''2.'')) 5)
     (Some (getListChains (exampleEditor (str ''2.''))))
     (getPreviousListType (exampleEditor (str ''2.''))
        (getRangeFromText (exampleEditor (str ''2.'')) (str ''2.'')) Ordered) = Some 1 \<and>
   \<not> AutoNumberingList_shouldHandleEvent exampleNumberingStyle (exampleEditor (str ''2.''))) \<and>
   (cacheGetListElement windowEditor = None \<and>
   getNearestNonTextInlineElement windowEditor = None \<and>
   exampleNumberingStyle (getSubStringBefore windowEditor 5) (Some (getListChains windowEditor))
     (getPreviousListType windowEditor
        (getRangeFromText windowEditor (getSubStringBefore windowEditor 5)) Ordered) = Some 1 \<and>
   list_ex isWhiteSpace (getSubStringBefore windowEditor 5) \<and>
   AutoNumberingList_shouldHandleEvent exampleNumberingStyle windowEditor)"
  using previous_style_blocks window_fires by (rule conjI)

end
